theory Spec2Isabelle
  imports Main
begin

section \<open>Syntax trees\<close>

text \<open>
  The transform in \<^verbatim>\<open>src/compiler/transforms/es6.ts\<close> works on the compiler's syntax
  tree.  A node is an object with a \<^verbatim>\<open>kind\<close>, two bit masks (\<^verbatim>\<open>flags\<close> and
  \<^verbatim>\<open>transformFlags\<close>) and named properties that hold one child or an array of children.
  The bit masks are modelled as sets of flag names: \<^verbatim>\<open>node.flags & NodeFlags.Export\<close> is
  \<open>Export \<in> flags node\<close>.  Source positions (the \<^verbatim>\<open>location\<close> arguments, \<^verbatim>\<open>setTextRange\<close>,
  \<^verbatim>\<open>startOnNewLine\<close>) and the \<^verbatim>\<open>original\<close> back reference only serve diagnostics and are
  left out.
\<close>

text \<open>
  \<^verbatim>\<open>SyntaxKind\<close> is an enumeration of several hundred members.  A kind is represented
  by its name, and the members this file mentions are introduced below, one abbreviation
  each.
\<close>

type_synonym SyntaxKind = string

abbreviation PublicKeyword :: SyntaxKind where "PublicKeyword \<equiv> ''PublicKeyword''"
abbreviation PrivateKeyword :: SyntaxKind where "PrivateKeyword \<equiv> ''PrivateKeyword''"
abbreviation ProtectedKeyword :: SyntaxKind where "ProtectedKeyword \<equiv> ''ProtectedKeyword''"
abbreviation AbstractKeyword :: SyntaxKind where "AbstractKeyword \<equiv> ''AbstractKeyword''"
abbreviation AsyncKeyword :: SyntaxKind where "AsyncKeyword \<equiv> ''AsyncKeyword''"
abbreviation ConstKeyword :: SyntaxKind where "ConstKeyword \<equiv> ''ConstKeyword''"
abbreviation DeclareKeyword :: SyntaxKind where "DeclareKeyword \<equiv> ''DeclareKeyword''"
abbreviation ArrayType :: SyntaxKind where "ArrayType \<equiv> ''ArrayType''"
abbreviation TupleType :: SyntaxKind where "TupleType \<equiv> ''TupleType''"
abbreviation TypeLiteral :: SyntaxKind where "TypeLiteral \<equiv> ''TypeLiteral''"
abbreviation TypePredicate :: SyntaxKind where "TypePredicate \<equiv> ''TypePredicate''"
abbreviation TypeParameter :: SyntaxKind where "TypeParameter \<equiv> ''TypeParameter''"
abbreviation AnyKeyword :: SyntaxKind where "AnyKeyword \<equiv> ''AnyKeyword''"
abbreviation BooleanKeyword :: SyntaxKind where "BooleanKeyword \<equiv> ''BooleanKeyword''"
abbreviation StringKeyword :: SyntaxKind where "StringKeyword \<equiv> ''StringKeyword''"
abbreviation NumberKeyword :: SyntaxKind where "NumberKeyword \<equiv> ''NumberKeyword''"
abbreviation VoidKeyword :: SyntaxKind where "VoidKeyword \<equiv> ''VoidKeyword''"
abbreviation SymbolKeyword :: SyntaxKind where "SymbolKeyword \<equiv> ''SymbolKeyword''"
abbreviation ConstructorType :: SyntaxKind where "ConstructorType \<equiv> ''ConstructorType''"
abbreviation FunctionType :: SyntaxKind where "FunctionType \<equiv> ''FunctionType''"
abbreviation TypeQuery :: SyntaxKind where "TypeQuery \<equiv> ''TypeQuery''"
abbreviation TypeReference :: SyntaxKind where "TypeReference \<equiv> ''TypeReference''"
abbreviation UnionType :: SyntaxKind where "UnionType \<equiv> ''UnionType''"
abbreviation IntersectionType :: SyntaxKind where "IntersectionType \<equiv> ''IntersectionType''"
abbreviation ParenthesizedType :: SyntaxKind where "ParenthesizedType \<equiv> ''ParenthesizedType''"
abbreviation IndexSignature :: SyntaxKind where "IndexSignature \<equiv> ''IndexSignature''"
abbreviation Decorator :: SyntaxKind where "Decorator \<equiv> ''Decorator''"
abbreviation InterfaceDeclaration :: SyntaxKind where "InterfaceDeclaration \<equiv> ''InterfaceDeclaration''"
abbreviation TypeAliasDeclaration :: SyntaxKind where "TypeAliasDeclaration \<equiv> ''TypeAliasDeclaration''"
abbreviation PropertyDeclaration :: SyntaxKind where "PropertyDeclaration \<equiv> ''PropertyDeclaration''"
abbreviation Constructor :: SyntaxKind where "Constructor \<equiv> ''Constructor''"
abbreviation ClassDeclaration :: SyntaxKind where "ClassDeclaration \<equiv> ''ClassDeclaration''"
abbreviation ClassExpression :: SyntaxKind where "ClassExpression \<equiv> ''ClassExpression''"
abbreviation HeritageClause :: SyntaxKind where "HeritageClause \<equiv> ''HeritageClause''"
abbreviation ExpressionWithTypeArguments :: SyntaxKind where "ExpressionWithTypeArguments \<equiv> ''ExpressionWithTypeArguments''"
abbreviation MethodDeclaration :: SyntaxKind where "MethodDeclaration \<equiv> ''MethodDeclaration''"
abbreviation GetAccessor :: SyntaxKind where "GetAccessor \<equiv> ''GetAccessor''"
abbreviation SetAccessor :: SyntaxKind where "SetAccessor \<equiv> ''SetAccessor''"
abbreviation FunctionDeclaration :: SyntaxKind where "FunctionDeclaration \<equiv> ''FunctionDeclaration''"
abbreviation FunctionExpression :: SyntaxKind where "FunctionExpression \<equiv> ''FunctionExpression''"
abbreviation ArrowFunction :: SyntaxKind where "ArrowFunction \<equiv> ''ArrowFunction''"
abbreviation Parameter :: SyntaxKind where "Parameter \<equiv> ''Parameter''"
abbreviation TypeAssertionExpression :: SyntaxKind where "TypeAssertionExpression \<equiv> ''TypeAssertionExpression''"
abbreviation AsExpression :: SyntaxKind where "AsExpression \<equiv> ''AsExpression''"
abbreviation EnumDeclaration :: SyntaxKind where "EnumDeclaration \<equiv> ''EnumDeclaration''"
abbreviation EnumMember :: SyntaxKind where "EnumMember \<equiv> ''EnumMember''"
abbreviation AwaitExpression :: SyntaxKind where "AwaitExpression \<equiv> ''AwaitExpression''"
abbreviation VariableStatement :: SyntaxKind where "VariableStatement \<equiv> ''VariableStatement''"
abbreviation ModuleDeclaration :: SyntaxKind where "ModuleDeclaration \<equiv> ''ModuleDeclaration''"
abbreviation ModuleBlock :: SyntaxKind where "ModuleBlock \<equiv> ''ModuleBlock''"
abbreviation ImportEqualsDeclaration :: SyntaxKind where "ImportEqualsDeclaration \<equiv> ''ImportEqualsDeclaration''"
abbreviation ExportAssignment :: SyntaxKind where "ExportAssignment \<equiv> ''ExportAssignment''"
abbreviation ObjectBindingPattern :: SyntaxKind where "ObjectBindingPattern \<equiv> ''ObjectBindingPattern''"
abbreviation ArrayBindingPattern :: SyntaxKind where "ArrayBindingPattern \<equiv> ''ArrayBindingPattern''"
abbreviation Identifier :: SyntaxKind where "Identifier \<equiv> ''Identifier''"
abbreviation ComputedPropertyName :: SyntaxKind where "ComputedPropertyName \<equiv> ''ComputedPropertyName''"
abbreviation StringLiteral :: SyntaxKind where "StringLiteral \<equiv> ''StringLiteral''"
abbreviation NumericLiteral :: SyntaxKind where "NumericLiteral \<equiv> ''NumericLiteral''"
abbreviation QualifiedName :: SyntaxKind where "QualifiedName \<equiv> ''QualifiedName''"
abbreviation ExtendsKeyword :: SyntaxKind where "ExtendsKeyword \<equiv> ''ExtendsKeyword''"
abbreviation ImplementsKeyword :: SyntaxKind where "ImplementsKeyword \<equiv> ''ImplementsKeyword''"
abbreviation ThisKeyword :: SyntaxKind where "ThisKeyword \<equiv> ''ThisKeyword''"
abbreviation SuperKeyword :: SyntaxKind where "SuperKeyword \<equiv> ''SuperKeyword''"
abbreviation SourceFile :: SyntaxKind where "SourceFile \<equiv> ''SourceFile''"
abbreviation Block :: SyntaxKind where "Block \<equiv> ''Block''"
abbreviation ExpressionStatement :: SyntaxKind where "ExpressionStatement \<equiv> ''ExpressionStatement''"
abbreviation ReturnStatement :: SyntaxKind where "ReturnStatement \<equiv> ''ReturnStatement''"
abbreviation VariableDeclarationList :: SyntaxKind where "VariableDeclarationList \<equiv> ''VariableDeclarationList''"
abbreviation VariableDeclaration :: SyntaxKind where "VariableDeclaration \<equiv> ''VariableDeclaration''"
abbreviation BinaryExpression :: SyntaxKind where "BinaryExpression \<equiv> ''BinaryExpression''"
abbreviation ConditionalExpression :: SyntaxKind where "ConditionalExpression \<equiv> ''ConditionalExpression''"
abbreviation CallExpression :: SyntaxKind where "CallExpression \<equiv> ''CallExpression''"
abbreviation PropertyAccessExpression :: SyntaxKind where "PropertyAccessExpression \<equiv> ''PropertyAccessExpression''"
abbreviation ElementAccessExpression :: SyntaxKind where "ElementAccessExpression \<equiv> ''ElementAccessExpression''"
abbreviation ParenthesizedExpression :: SyntaxKind where "ParenthesizedExpression \<equiv> ''ParenthesizedExpression''"
abbreviation YieldExpression :: SyntaxKind where "YieldExpression \<equiv> ''YieldExpression''"
abbreviation SpreadElementExpression :: SyntaxKind where "SpreadElementExpression \<equiv> ''SpreadElementExpression''"
abbreviation ObjectLiteralExpression :: SyntaxKind where "ObjectLiteralExpression \<equiv> ''ObjectLiteralExpression''"
abbreviation ArrayLiteralExpression :: SyntaxKind where "ArrayLiteralExpression \<equiv> ''ArrayLiteralExpression''"
abbreviation VoidExpression :: SyntaxKind where "VoidExpression \<equiv> ''VoidExpression''"
abbreviation TypeOfExpression :: SyntaxKind where "TypeOfExpression \<equiv> ''TypeOfExpression''"
abbreviation EqualsToken :: SyntaxKind where "EqualsToken \<equiv> ''EqualsToken''"
abbreviation PlusEqualsToken :: SyntaxKind where "PlusEqualsToken \<equiv> ''PlusEqualsToken''"
abbreviation MinusEqualsToken :: SyntaxKind where "MinusEqualsToken \<equiv> ''MinusEqualsToken''"
abbreviation AsteriskEqualsToken :: SyntaxKind where "AsteriskEqualsToken \<equiv> ''AsteriskEqualsToken''"
abbreviation AsteriskAsteriskEqualsToken :: SyntaxKind where "AsteriskAsteriskEqualsToken \<equiv> ''AsteriskAsteriskEqualsToken''"
abbreviation SlashEqualsToken :: SyntaxKind where "SlashEqualsToken \<equiv> ''SlashEqualsToken''"
abbreviation PercentEqualsToken :: SyntaxKind where "PercentEqualsToken \<equiv> ''PercentEqualsToken''"
abbreviation LessThanLessThanEqualsToken :: SyntaxKind where "LessThanLessThanEqualsToken \<equiv> ''LessThanLessThanEqualsToken''"
abbreviation GreaterThanGreaterThanEqualsToken :: SyntaxKind where "GreaterThanGreaterThanEqualsToken \<equiv> ''GreaterThanGreaterThanEqualsToken''"
abbreviation GreaterThanGreaterThanGreaterThanEqualsToken :: SyntaxKind where "GreaterThanGreaterThanGreaterThanEqualsToken \<equiv> ''GreaterThanGreaterThanGreaterThanEqualsToken''"
abbreviation AmpersandEqualsToken :: SyntaxKind where "AmpersandEqualsToken \<equiv> ''AmpersandEqualsToken''"
abbreviation BarEqualsToken :: SyntaxKind where "BarEqualsToken \<equiv> ''BarEqualsToken''"
abbreviation CaretEqualsToken :: SyntaxKind where "CaretEqualsToken \<equiv> ''CaretEqualsToken''"
abbreviation PlusToken :: SyntaxKind where "PlusToken \<equiv> ''PlusToken''"
abbreviation MinusToken :: SyntaxKind where "MinusToken \<equiv> ''MinusToken''"
abbreviation AsteriskToken :: SyntaxKind where "AsteriskToken \<equiv> ''AsteriskToken''"
abbreviation CommaToken :: SyntaxKind where "CommaToken \<equiv> ''CommaToken''"
abbreviation BarBarToken :: SyntaxKind where "BarBarToken \<equiv> ''BarBarToken''"
abbreviation AmpersandAmpersandToken :: SyntaxKind where "AmpersandAmpersandToken \<equiv> ''AmpersandAmpersandToken''"
abbreviation EqualsEqualsEqualsToken :: SyntaxKind where "EqualsEqualsEqualsToken \<equiv> ''EqualsEqualsEqualsToken''"
abbreviation ExclamationEqualsEqualsToken :: SyntaxKind where "ExclamationEqualsEqualsToken \<equiv> ''ExclamationEqualsEqualsToken''"
abbreviation DotDotDotToken :: SyntaxKind where "DotDotDotToken \<equiv> ''DotDotDotToken''"
abbreviation QuestionToken :: SyntaxKind where "QuestionToken \<equiv> ''QuestionToken''"
abbreviation ExportDefault :: SyntaxKind where "ExportDefault \<equiv> ''ExportDefault''"

datatype NodeFlag =
    Export | Ambient | Default | Static | Abstract | Async | Const
  | Public | Private | Protected
  | GeneratedRest | GeneratedSuper | GeneratedNamespace

text \<open>\<^verbatim>\<open>NodeFlags.AccessibilityModifier\<close> is the mask of the three accessibility flags.\<close>

definition AccessibilityModifier :: "NodeFlag set" where
  "AccessibilityModifier = {Public, Private, Protected}"

datatype TransformFlag = ThisNodeNeedsTransformToES6 | SubtreeNeedsTransformToES6

datatype Prop =
    P_decorators | P_modifiers | P_name | P_members | P_heritageClauses | P_types
  | P_expression | P_typeArguments | P_parameters | P_body | P_initializer | P_type
  | P_statements | P_declarationList | P_declarations | P_left | P_right
  | P_operatorToken | P_condition | P_whenTrue | P_whenFalse | P_asteriskToken
  | P_dotDotDotToken | P_questionToken | P_typeName | P_elementType | P_arguments
  | P_argumentExpression | P_properties | P_elements | P_propertyName

datatype 'a child = One 'a | Many "'a list"

text \<open>
  \<open>nodeId\<close> stands for the identity of the object: the source compares nodes with
  \<^verbatim>\<open>===\<close>, which is reference equality.  The parser gives every node of the input tree
  an identity of its own; nodes made by the factory functions carry 0.  \<open>nodeText\<close> is
  the \<^verbatim>\<open>text\<close> of an identifier or literal, \<open>token\<close> the \<^verbatim>\<open>token\<close> of a heritage clause.
\<close>

datatype node = Node
  (kind: SyntaxKind)
  (flags: "NodeFlag set")
  (transformFlags: "TransformFlag set")
  (nodeId: nat)
  (nodeText: string)
  (token: "SyntaxKind option")
  (children: "(Prop \<times> node child) list")

definition sameNode :: "node \<Rightarrow> node \<Rightarrow> bool" where
  "sameNode a b = (nodeId a = nodeId b)"

definition getNode :: "node \<Rightarrow> Prop \<Rightarrow> node option" where
  "getNode n p = (case map_of (children n) p of Some (One c) \<Rightarrow> Some c | _ \<Rightarrow> None)"

definition getNodes :: "node \<Rightarrow> Prop \<Rightarrow> node list option" where
  "getNodes n p = (case map_of (children n) p of Some (Many cs) \<Rightarrow> Some cs | _ \<Rightarrow> None)"

text \<open>
  An array property that the node's type declares as always present (\<^verbatim>\<open>members\<close>,
  \<^verbatim>\<open>parameters\<close>, \<^verbatim>\<open>statements\<close>, \<^verbatim>\<open>declarations\<close>, \<^verbatim>\<open>types\<close>) reads as the empty
  array on a node that lacks it.
\<close>

definition arrayOf :: "node \<Rightarrow> Prop \<Rightarrow> node list" where
  "arrayOf n p = (case getNodes n p of Some cs \<Rightarrow> cs | None \<Rightarrow> [])"

definition decorators :: "node \<Rightarrow> node list option" where
  "decorators n = getNodes n P_decorators"

definition members :: "node \<Rightarrow> node list" where
  "members n = arrayOf n P_members"

definition parameters :: "node \<Rightarrow> node list" where
  "parameters n = arrayOf n P_parameters"

definition statements :: "node \<Rightarrow> node list" where
  "statements n = arrayOf n P_statements"

definition name :: "node \<Rightarrow> node option" where
  "name n = getNode n P_name"

definition body :: "node \<Rightarrow> node option" where
  "body n = getNode n P_body"

definition initializer :: "node \<Rightarrow> node option" where
  "initializer n = getNode n P_initializer"

definition expression :: "node \<Rightarrow> node option" where
  "expression n = getNode n P_expression"

definition typeOf :: "node \<Rightarrow> node option" where
  "typeOf n = getNode n P_type"

definition hasKind :: "SyntaxKind \<Rightarrow> node option \<Rightarrow> bool" where
  "hasKind k n = (case n of None \<Rightarrow> False | Some m \<Rightarrow> kind m = k)"

section \<open>Tree Builder\<close>

text \<open>
  The factory functions (\<^verbatim>\<open>createX\<close>, \<^verbatim>\<open>updateX\<close>, \<^verbatim>\<open>cloneNode\<close>) are not under
  \<^verbatim>\<open>src/\<close>.  Each is taken to build the node of the kind its name says from the
  children it is given, with no flag set unless one is passed.
\<close>

definition synth :: "SyntaxKind \<Rightarrow> (Prop \<times> node child) list \<Rightarrow> node" where
  "synth k cs = Node k {} {} 0 [] None cs"

definition synthFlagged :: "SyntaxKind \<Rightarrow> NodeFlag set \<Rightarrow> (Prop \<times> node child) list \<Rightarrow> node" where
  "synthFlagged k fl cs = Node k fl {} 0 [] None cs"

definition opt :: "Prop \<Rightarrow> node option \<Rightarrow> (Prop \<times> node child) list" where
  "opt p x = (case x of None \<Rightarrow> [] | Some n \<Rightarrow> [(p, One n)])"

definition optMany :: "Prop \<Rightarrow> node list option \<Rightarrow> (Prop \<times> node child) list" where
  "optMany p x = (case x of None \<Rightarrow> [] | Some ns \<Rightarrow> [(p, Many ns)])"


definition createIdentifier :: "string \<Rightarrow> node" where
  "createIdentifier s = Node Identifier {} {} 0 s None []"

definition createStringLiteral :: "string \<Rightarrow> node" where
  "createStringLiteral s = Node StringLiteral {} {} 0 s None []"

text \<open>
  A number value is kept as its notation, the string that \<^verbatim>\<open>String(value)\<close> gives for it
  (\<^verbatim>\<open>0\<close>, \<^verbatim>\<open>-1\<close>, \<^verbatim>\<open>0.5\<close>, \<^verbatim>\<open>NaN\<close>, \<^verbatim>\<open>Infinity\<close>): every number has one, two
  numbers with the same notation are the same value up to the sign of zero, and the
  notation is both the text of the literal \<^verbatim>\<open>createNumericLiteral2\<close> makes for the number and
  the property key the number converts to.  \<open>numberOfInt\<close> is the number of an integer,
  its decimal notation.
\<close>

type_synonym jsNumber = string

fun showNat :: "nat \<Rightarrow> string" where
  "showNat n = (if n < 10 then [char_of (48 + n)] else showNat (n div 10) @ [char_of (48 + n mod 10)])"

declare showNat.simps [simp del]

definition showInt :: "int \<Rightarrow> string" where
  "showInt i = (if i < 0 then CHR ''-'' # showNat (nat (- i)) else showNat (nat i))"

definition numberOfInt :: "int \<Rightarrow> jsNumber" where
  "numberOfInt i = showInt i"

definition createNumericLiteral2 :: "jsNumber \<Rightarrow> node" where
  "createNumericLiteral2 v = Node NumericLiteral {} {} 0 v None []"

definition createVoidZeroExpression :: node where
  "createVoidZeroExpression =
     synth VoidExpression [(P_expression, One (createNumericLiteral2 (numberOfInt 0)))]"

definition createThisKeyword :: node where
  "createThisKeyword = synth ThisKeyword []"

definition createSuperKeyword :: node where
  "createSuperKeyword = synth SuperKeyword []"

definition cloneNode :: "node \<Rightarrow> node" where
  "cloneNode n = Node (kind n) (flags n) (transformFlags n) 0 (nodeText n) (token n) (children n)"

definition createBinary :: "node option \<Rightarrow> SyntaxKind \<Rightarrow> node option \<Rightarrow> node" where
  "createBinary l op r =
     synth BinaryExpression (opt P_left l @ [(P_operatorToken, One (synth op []))] @ opt P_right r)"

definition createAssignmentExpression :: "node option \<Rightarrow> node option \<Rightarrow> node" where
  "createAssignmentExpression l r = createBinary l EqualsToken r"

definition createLogicalOrExpression :: "node option \<Rightarrow> node option \<Rightarrow> node" where
  "createLogicalOrExpression l r = createBinary l BarBarToken r"

definition createLogicalAndExpression :: "node option \<Rightarrow> node option \<Rightarrow> node" where
  "createLogicalAndExpression l r = createBinary l AmpersandAmpersandToken r"

definition createStrictEqualityExpression :: "node option \<Rightarrow> node option \<Rightarrow> node" where
  "createStrictEqualityExpression l r = createBinary l EqualsEqualsEqualsToken r"

definition createStrictInequalityExpression :: "node option \<Rightarrow> node option \<Rightarrow> node" where
  "createStrictInequalityExpression l r = createBinary l ExclamationEqualsEqualsToken r"

definition createConditionalExpression2 :: "node \<Rightarrow> node \<Rightarrow> node \<Rightarrow> node" where
  "createConditionalExpression2 c t e =
     synth ConditionalExpression [(P_condition, One c), (P_whenTrue, One t), (P_whenFalse, One e)]"

definition createTypeOfExpression :: "node \<Rightarrow> node" where
  "createTypeOfExpression e = synth TypeOfExpression [(P_expression, One e)]"

definition createParenthesizedExpression :: "node \<Rightarrow> node" where
  "createParenthesizedExpression e = synth ParenthesizedExpression [(P_expression, One e)]"

definition createPropertyAccessExpression2 :: "node option \<Rightarrow> node option \<Rightarrow> node" where
  "createPropertyAccessExpression2 e n = synth PropertyAccessExpression (opt P_expression e @ opt P_name n)"

definition createElementAccessExpression2 :: "node option \<Rightarrow> node \<Rightarrow> node" where
  "createElementAccessExpression2 e a =
     synth ElementAccessExpression (opt P_expression e @ [(P_argumentExpression, One a)])"

definition createCallExpression2 :: "node \<Rightarrow> node list \<Rightarrow> node" where
  "createCallExpression2 e args = synth CallExpression [(P_expression, One e), (P_arguments, Many args)]"

definition createSpreadElementExpression :: "node \<Rightarrow> node" where
  "createSpreadElementExpression e = synth SpreadElementExpression [(P_expression, One e)]"

definition createYieldExpression :: "node option \<Rightarrow> node option \<Rightarrow> node" where
  "createYieldExpression asterisk e = synth YieldExpression (opt P_asteriskToken asterisk @ opt P_expression e)"

definition createObjectLiteralExpression2 :: "node list \<Rightarrow> node" where
  "createObjectLiteralExpression2 ps = synth ObjectLiteralExpression [(P_properties, Many ps)]"

definition createArrayLiteralExpression :: "node list \<Rightarrow> node" where
  "createArrayLiteralExpression es = synth ArrayLiteralExpression [(P_elements, Many es)]"

definition createExpressionStatement :: "node \<Rightarrow> NodeFlag set \<Rightarrow> node" where
  "createExpressionStatement e fl = synthFlagged ExpressionStatement fl [(P_expression, One e)]"

definition createReturnStatement :: "node option \<Rightarrow> node" where
  "createReturnStatement e = synth ReturnStatement (opt P_expression e)"

definition createBlock :: "node list \<Rightarrow> node" where
  "createBlock ss = synth Block [(P_statements, Many ss)]"

definition createVariableDeclaration2 :: "node option \<Rightarrow> node option \<Rightarrow> NodeFlag set \<Rightarrow> node" where
  "createVariableDeclaration2 n i fl = synthFlagged VariableDeclaration fl (opt P_name n @ opt P_initializer i)"

definition createVariableDeclarationList :: "node list \<Rightarrow> node" where
  "createVariableDeclarationList ds = synth VariableDeclarationList [(P_declarations, Many ds)]"

definition createVariableStatement2 :: "node \<Rightarrow> NodeFlag set \<Rightarrow> node" where
  "createVariableStatement2 ds fl = synthFlagged VariableStatement fl [(P_declarationList, One ds)]"

text \<open>\<^verbatim>\<open>createSimpleLetStatement(name, value, location, exported)\<close>: \<^verbatim>\<open>let name = value\<close>.\<close>

definition createSimpleLetStatement :: "node option \<Rightarrow> node \<Rightarrow> bool \<Rightarrow> node" where
  "createSimpleLetStatement n v exported =
     createVariableStatement2
       (createVariableDeclarationList [createVariableDeclaration2 n (Some v) {}])
       (if exported then {Export} else {})"

definition createExportDefaultStatement :: "node option \<Rightarrow> node" where
  "createExportDefaultStatement n = synthFlagged ExportDefault {Export, Default} (opt P_expression n)"

definition createParameter2 :: "node option \<Rightarrow> node option \<Rightarrow> NodeFlag set \<Rightarrow> node" where
  "createParameter2 n i fl = synthFlagged Parameter fl (opt P_name n @ opt P_initializer i)"

definition createRestParameter :: "node \<Rightarrow> NodeFlag set \<Rightarrow> node" where
  "createRestParameter n fl =
     synthFlagged Parameter fl [(P_dotDotDotToken, One (synth DotDotDotToken [])), (P_name, One n)]"

definition createConstructor2 :: "node list \<Rightarrow> node \<Rightarrow> node" where
  "createConstructor2 ps b = synth Constructor [(P_parameters, Many ps), (P_body, One b)]"

definition createMethodDeclaration2 :: "node \<Rightarrow> node list \<Rightarrow> node option \<Rightarrow> NodeFlag set \<Rightarrow> node" where
  "createMethodDeclaration2 n ps b fl =
     synthFlagged MethodDeclaration fl ([(P_name, One n), (P_parameters, Many ps)] @ opt P_body b)"

definition createGetAccessor2 :: "node \<Rightarrow> node list \<Rightarrow> node option \<Rightarrow> NodeFlag set \<Rightarrow> node" where
  "createGetAccessor2 n ps b fl =
     synthFlagged GetAccessor fl ([(P_name, One n), (P_parameters, Many ps)] @ opt P_body b)"

definition createSetAccessor2 :: "node \<Rightarrow> node list \<Rightarrow> node option \<Rightarrow> NodeFlag set \<Rightarrow> node" where
  "createSetAccessor2 n ps b fl =
     synthFlagged SetAccessor fl ([(P_name, One n), (P_parameters, Many ps)] @ opt P_body b)"

definition createFunctionDeclaration3 ::
  "node option \<Rightarrow> node option \<Rightarrow> node list \<Rightarrow> node option \<Rightarrow> NodeFlag set \<Rightarrow> node" where
  "createFunctionDeclaration3 asterisk n ps b fl =
     synthFlagged FunctionDeclaration fl
       (opt P_asteriskToken asterisk @ opt P_name n @ [(P_parameters, Many ps)] @ opt P_body b)"

definition createFunctionExpression3 ::
  "node option \<Rightarrow> node option \<Rightarrow> node list \<Rightarrow> node option \<Rightarrow> node" where
  "createFunctionExpression3 asterisk n ps b =
     synth FunctionExpression
       (opt P_asteriskToken asterisk @ opt P_name n @ [(P_parameters, Many ps)] @ opt P_body b)"

definition createFunctionExpression2 :: "node option \<Rightarrow> node list \<Rightarrow> node \<Rightarrow> node" where
  "createFunctionExpression2 n ps b = createFunctionExpression3 None n ps (Some b)"

definition createArrowFunction2 :: "node list \<Rightarrow> node option \<Rightarrow> node" where
  "createArrowFunction2 ps b = synth ArrowFunction ([(P_parameters, Many ps)] @ opt P_body b)"

definition heritageOf :: "node option \<Rightarrow> (Prop \<times> node child) list" where
  "heritageOf baseTypeNode =
     (case baseTypeNode of
        None \<Rightarrow> []
      | Some b \<Rightarrow>
          [(P_heritageClauses,
            Many [Node HeritageClause {} {} 0 [] (Some ExtendsKeyword) [(P_types, Many [b])]])])"

definition createClassExpression2 :: "node option \<Rightarrow> node option \<Rightarrow> node list \<Rightarrow> node" where
  "createClassExpression2 n baseTypeNode ms =
     synth ClassExpression (opt P_name n @ heritageOf baseTypeNode @ [(P_members, Many ms)])"

definition createClassExpression3 :: "node option \<Rightarrow> node list \<Rightarrow> node" where
  "createClassExpression3 baseTypeNode ms = createClassExpression2 None baseTypeNode ms"

definition createClassDeclaration2 ::
  "node option \<Rightarrow> node option \<Rightarrow> node list \<Rightarrow> NodeFlag set \<Rightarrow> node" where
  "createClassDeclaration2 n baseTypeNode ms fl =
     synthFlagged ClassDeclaration fl (opt P_name n @ heritageOf baseTypeNode @ [(P_members, Many ms)])"

text \<open>
  \<^verbatim>\<open>updateX(node, ...)\<close> keeps the node and replaces the children named.
\<close>

definition updateChildren :: "node \<Rightarrow> (Prop \<times> node child) list \<Rightarrow> node" where
  "updateChildren n cs = Node (kind n) (flags n) (transformFlags n) (nodeId n) (nodeText n) (token n) cs"

definition updateHeritageClause :: "node \<Rightarrow> node list \<Rightarrow> node" where
  "updateHeritageClause n ts = updateChildren n [(P_types, Many ts)]"

definition updateExpressionWithTypeArguments :: "node \<Rightarrow> node option \<Rightarrow> node" where
  "updateExpressionWithTypeArguments n e = updateChildren n (opt P_expression e)"

definition updateComputedPropertyName :: "node \<Rightarrow> node option \<Rightarrow> node" where
  "updateComputedPropertyName n e = updateChildren n (opt P_expression e)"

text \<open>\<^verbatim>\<open>inlineExpressions\<close> joins expressions with the comma operator.\<close>

fun inlineExpressions :: "node list \<Rightarrow> node option" where
  "inlineExpressions [] = None"
| "inlineExpressions [e] = Some e"
| "inlineExpressions (e # es) = Some (createBinary (Some e) CommaToken (inlineExpressions es))"

text \<open>The emit helpers \<^verbatim>\<open>__decorate\<close>, \<^verbatim>\<open>__param\<close>, \<^verbatim>\<open>__metadata\<close>, \<^verbatim>\<open>__awaiter\<close>.\<close>

definition createDecorateHelperCall ::
  "node list \<Rightarrow> node option \<Rightarrow> node option \<Rightarrow> node option \<Rightarrow> node" where
  "createDecorateHelperCall decoratorExpressions target memberName descriptor =
     createCallExpression2 (createIdentifier ''__decorate'')
       (createArrayLiteralExpression decoratorExpressions
          # (case target of None \<Rightarrow> [] | Some t \<Rightarrow> [t])
          @ (case memberName of None \<Rightarrow> [] | Some m \<Rightarrow> [m])
          @ (case descriptor of None \<Rightarrow> [] | Some d \<Rightarrow> [d]))"

definition createParamHelperCall :: "nat \<Rightarrow> node option \<Rightarrow> node" where
  "createParamHelperCall parameterIndex decoratorExpr =
     createCallExpression2 (createIdentifier ''__param'')
       (createNumericLiteral2 (numberOfInt (int parameterIndex))
          # (case decoratorExpr of None \<Rightarrow> [] | Some d \<Rightarrow> [d]))"

definition createMetadataHelperCall :: "string \<Rightarrow> node \<Rightarrow> node" where
  "createMetadataHelperCall key v =
     createCallExpression2 (createIdentifier ''__metadata'') [createStringLiteral key, v]"

definition createGetOwnPropertyDescriptorCall :: "node \<Rightarrow> node \<Rightarrow> node" where
  "createGetOwnPropertyDescriptorCall target memberName =
     createCallExpression2
       (createPropertyAccessExpression2 (Some (createIdentifier ''Object''))
          (Some (createIdentifier ''getOwnPropertyDescriptor'')))
       [target, memberName]"

definition createDefinePropertyCall :: "node \<Rightarrow> node \<Rightarrow> node \<Rightarrow> node" where
  "createDefinePropertyCall target memberName descriptor =
     createCallExpression2
       (createPropertyAccessExpression2 (Some (createIdentifier ''Object''))
          (Some (createIdentifier ''defineProperty'')))
       [target, memberName, descriptor]"

definition createAwaiterHelperCall :: "bool \<Rightarrow> node option \<Rightarrow> node option \<Rightarrow> node" where
  "createAwaiterHelperCall hasLexicalArguments promiseConstructor generatorBody =
     createCallExpression2 (createIdentifier ''__awaiter'')
       [createThisKeyword,
        (if hasLexicalArguments then createIdentifier ''arguments'' else createVoidZeroExpression),
        (case promiseConstructor of None \<Rightarrow> createVoidZeroExpression | Some p \<Rightarrow> p),
        synth FunctionExpression
          ([(P_asteriskToken, One (synth AsteriskToken [])),
            (P_parameters,
             Many (if hasLexicalArguments
                   then [createParameter2 (Some (createIdentifier ''_arguments'')) None {}]
                   else []))]
           @ opt P_body generatorBody)]"


text \<open>
  \<^verbatim>\<open>createMemberAccessForPropertyName(target, memberName)\<close>: \<^verbatim>\<open>target.name\<close> for an
  identifier, \<^verbatim>\<open>target[expression]\<close> for a computed name, \<^verbatim>\<open>target[literal]\<close> otherwise.
\<close>

definition createMemberAccessForPropertyName :: "node \<Rightarrow> node option \<Rightarrow> node" where
  "createMemberAccessForPropertyName target memberName =
     (case memberName of
        None \<Rightarrow> createPropertyAccessExpression2 (Some target) None
      | Some m \<Rightarrow>
          if kind m = Identifier then createPropertyAccessExpression2 (Some target) (Some m)
          else if kind m = ComputedPropertyName then
            (case getNode m P_expression of
               None \<Rightarrow> createPropertyAccessExpression2 (Some target) None
             | Some e \<Rightarrow> createElementAccessExpression2 (Some target) e)
          else createElementAccessExpression2 (Some target) m)"

section \<open>Transformation context\<close>

text \<open>
  The module-level variables of the transform.  \<^verbatim>\<open>resolver\<close>, \<^verbatim>\<open>compilerOptions\<close> and
  \<^verbatim>\<open>languageVersion\<close> are assigned once, in \<^verbatim>\<open>toES6\<close>, and only read afterwards: they
  form the environment \<open>Env\<close>, together with the Name Generator and those helper
  functions of the compiler's utilities whose answer the transform only consumes
  (\<^verbatim>\<open>nodeIsDecorated\<close>, \<^verbatim>\<open>nodeCanBeDecorated\<close>, \<^verbatim>\<open>nodeOrChildIsDecorated\<close>,
  \<^verbatim>\<open>getAllAccessorDeclarations\<close>, \<^verbatim>\<open>getClassMemberPrefix\<close>, \<^verbatim>\<open>isAsyncFunctionLike\<close>,
  \<^verbatim>\<open>getEntityNameFromTypeNode\<close>, \<^verbatim>\<open>isInstantiatedModule\<close>, \<^verbatim>\<open>getCombinedNodeFlags\<close>).
  None of them is under \<^verbatim>\<open>src/\<close>; what they answer is a parameter of the model, so
  every theorem below holds whatever they answer.
\<close>

datatype NodeCheckFlag = CaptureArguments | LexicalModuleMergesWithClass

datatype ScriptTarget = ES3 | ES5 | ES6

record AllAccessorDeclarations =
  firstAccessor :: node
  secondAccessor :: "node option"
  getAccessor :: "node option"
  setAccessor :: "node option"

record Env =
  nodeIsDecorated :: "node \<Rightarrow> bool"
  nodeCanBeDecorated :: "node \<Rightarrow> bool"
  nodeOrChildIsDecorated :: "node \<Rightarrow> bool"
  getAllAccessorDeclarations :: "node list \<Rightarrow> node \<Rightarrow> AllAccessorDeclarations"
  getClassMemberPrefix :: "node \<Rightarrow> node \<Rightarrow> node"
  isAsyncFunctionLike :: "node \<Rightarrow> bool"
  getEntityNameFromTypeNode :: "node option \<Rightarrow> node option"
  getConstantValue :: "node \<Rightarrow> jsNumber option"
  getNodeCheckFlags :: "node \<Rightarrow> NodeCheckFlag set"
  isInstantiatedModule :: "node \<Rightarrow> bool \<Rightarrow> bool"
  getCombinedNodeFlags :: "node list \<Rightarrow> NodeFlag set"
  preserveConstEnums :: bool
  isolatedModules :: bool
  emitDecoratorMetadata :: bool
  scriptTarget :: "ScriptTarget option"
  generatedNameFor :: "node \<Rightarrow> string"
  freshLocal :: "nat \<Rightarrow> string"

definition languageVersion :: "Env \<Rightarrow> ScriptTarget" where
  "languageVersion env = (case scriptTarget env of None \<Rightarrow> ES3 | Some t \<Rightarrow> t)"

definition getGeneratedNameForNode :: "Env \<Rightarrow> node \<Rightarrow> node" where
  "getGeneratedNameForNode env n = createIdentifier (generatedNameFor env n)"

text \<open>
  The variables that change while the transform runs: the five scope-context variables
  of \<^verbatim>\<open>es6.ts\<close> (lines 7-10 and 849), and the state the transform framework keeps
  (the stack of the nodes being visited, innermost first; the count of temporaries
  handed out; the hoisted variable declarations).  A \<^verbatim>\<open>let\<close> without an initializer
  starts as \<^verbatim>\<open>undefined\<close>, here \<open>None\<close>.
\<close>

record TransformState =
  currentBaseTypeNode :: "node option"
  currentConstructor :: "node option"
  currentParametersWithPropertyAssignments :: "node list option"
  currentInstancePropertyAssignments :: "node list option"
  currentEnumLocalName :: "node option"
  nodeStack :: "node list"
  tempCount :: nat
  hoistedVariableDeclarations :: "node list"

definition initialState :: "node list \<Rightarrow> TransformState" where
  "initialState stack =
     \<lparr> currentBaseTypeNode = None, currentConstructor = None,
       currentParametersWithPropertyAssignments = None,
       currentInstancePropertyAssignments = None, currentEnumLocalName = None,
       nodeStack = stack, tempCount = 0, hoistedVariableDeclarations = [] \<rparr>"

text \<open>
  A function of the transform either returns, with the nodes it has passed to its
  \<^verbatim>\<open>write\<close> callback (in order) or with its return value, or it aborts: \<^verbatim>\<open>Debug.fail\<close>
  and a failed \<^verbatim>\<open>Debug.assert\<close> throw, and so does reading a property of \<^verbatim>\<open>undefined\<close>
  (\<open>TypeError\<close>).  \<open>OutOfFuel\<close> is not an outcome of the program:
  it marks a recursion cut off by the depth bound of \<open>transformNode\<close> below.
\<close>

datatype error = DebugFailure string | TypeError string | OutOfFuel

type_synonym 'a transform = "TransformState \<Rightarrow> error + ('a \<times> TransformState)"

type_synonym visitor = "node \<Rightarrow> node list transform"

definition ret :: "'a \<Rightarrow> 'a transform" where
  "ret x = (\<lambda>st. Inr (x, st))"

definition andThen :: "'a transform \<Rightarrow> ('a \<Rightarrow> 'b transform) \<Rightarrow> 'b transform" where
  "andThen m f = (\<lambda>st. case m st of Inl e \<Rightarrow> Inl e | Inr (x, st') \<Rightarrow> f x st')"

definition debugFail :: "string \<Rightarrow> 'a transform" where
  "debugFail msg = (\<lambda>st. Inl (DebugFailure msg))"

definition typeError :: "string \<Rightarrow> 'a transform" where
  "typeError msg = (\<lambda>st. Inl (TypeError msg))"

definition outOfFuel :: "'a transform" where
  "outOfFuel = (\<lambda>st. Inl OutOfFuel)"

definition gets :: "(TransformState \<Rightarrow> 'a) \<Rightarrow> 'a transform" where
  "gets f = (\<lambda>st. Inr (f st, st))"

definition modify :: "(TransformState \<Rightarrow> TransformState) \<Rightarrow> unit transform" where
  "modify f = (\<lambda>st. Inr ((), f st))"

text \<open>A \<^verbatim>\<open>for (let x of xs)\<close> loop whose body writes nodes.\<close>

primrec forEach :: "'a list \<Rightarrow> ('a \<Rightarrow> 'b list transform) \<Rightarrow> 'b list transform" where
  "forEach [] f = ret []"
| "forEach (x # xs) f = andThen (f x) (\<lambda>a. andThen (forEach xs f) (\<lambda>b. ret (a @ b)))"

section \<open>Transform framework\<close>

text \<open>
  Modelled from the spec: the visitor functions of the transform framework
  (\<^verbatim>\<open>visitNode\<close>, \<^verbatim>\<open>visitNodes\<close>, \<^verbatim>\<open>visitStatement\<close>, \<^verbatim>\<open>visitNewLexicalEnvironment\<close>,
  \<^verbatim>\<open>emitNode\<close>, \<^verbatim>\<open>emitNodes\<close>, \<^verbatim>\<open>pipeNodes\<close>, \<^verbatim>\<open>accept\<close>) and its node stack
  (\<^verbatim>\<open>getParentNode\<close>, \<^verbatim>\<open>findAncestorNode\<close>) are declared in
  \<^verbatim>\<open>transform.generated.ts\<close>, which is not under \<^verbatim>\<open>src/\<close>.  The spec describes the
  traversal as a recursive descent in which each child is passed through the callback,
  a lowering yielding nothing, one node or a short sequence of nodes.  A visit makes the
  node the innermost entry of the stack while the callback runs.  Where a single node is
  expected, no node written gives \<^verbatim>\<open>undefined\<close> and more than one aborts.  Where a
  single statement is expected (\<^verbatim>\<open>visitStatement\<close>), several statements written come back
  as one block: the spec has a nested namespace-like statement lowered directly and
  wrapped in a block if it is not already one, and the lowering of a namespace writes a
  forward declaration and a wrapper call.  Where hoisted declarations are put when a
  lexical environment ends is not modelled.
\<close>

definition withNode :: "node \<Rightarrow> 'a transform \<Rightarrow> 'a transform" where
  "withNode n m =
     (\<lambda>st. case m (st\<lparr>nodeStack := n # nodeStack st\<rparr>) of
              Inl e \<Rightarrow> Inl e
            | Inr (x, st') \<Rightarrow> Inr (x, st'\<lparr>nodeStack := nodeStack st\<rparr>))"

definition getParentNode :: "TransformState \<Rightarrow> node option" where
  "getParentNode st = (case nodeStack st of _ # p # _ \<Rightarrow> Some p | _ \<Rightarrow> None)"

definition findAncestorNode :: "(node \<Rightarrow> bool) \<Rightarrow> TransformState \<Rightarrow> node option" where
  "findAncestorNode test st = find test (tl (nodeStack st))"

definition singleNode :: "node list \<Rightarrow> node option transform" where
  "singleNode outs =
     (case outs of
        [] \<Rightarrow> ret None
      | [x] \<Rightarrow> ret (Some x)
      | _ \<Rightarrow> debugFail ''Too many nodes written to output.'')"

definition visitNode :: "visitor \<Rightarrow> node option \<Rightarrow> node option transform" where
  "visitNode visitor n =
     (case n of
        None \<Rightarrow> ret None
      | Some node \<Rightarrow> andThen (withNode node (visitor node)) singleNode)"

definition liftToBlock :: "node list \<Rightarrow> node option transform" where
  "liftToBlock outs =
     (case outs of
        [] \<Rightarrow> ret None
      | [x] \<Rightarrow> ret (Some x)
      | _ \<Rightarrow> ret (Some (createBlock outs)))"

definition visitStatement :: "visitor \<Rightarrow> node option \<Rightarrow> node option transform" where
  "visitStatement visitor n =
     (case n of
        None \<Rightarrow> ret None
      | Some node \<Rightarrow> andThen (withNode node (visitor node)) liftToBlock)"

definition visitNewLexicalEnvironment :: "visitor \<Rightarrow> node option \<Rightarrow> node option transform" where
  "visitNewLexicalEnvironment visitor n = visitNode visitor n"

definition emitNodes :: "visitor \<Rightarrow> node list \<Rightarrow> node list transform" where
  "emitNodes emitter ns = forEach ns (\<lambda>n. withNode n (emitter n))"

definition emitNode :: "visitor \<Rightarrow> node \<Rightarrow> node list transform" where
  "emitNode emitter n = withNode n (emitter n)"

definition pipeNodes :: "visitor \<Rightarrow> node list \<Rightarrow> node list transform" where
  "pipeNodes visitor ns = emitNodes visitor ns"

definition visitNodes :: "visitor \<Rightarrow> node list \<Rightarrow> node list transform" where
  "visitNodes visitor ns = emitNodes visitor ns"

definition acceptChild :: "visitor \<Rightarrow> Prop \<times> node child \<Rightarrow> (Prop \<times> node child) list transform" where
  "acceptChild visitor pc =
     (case pc of
        (p, One c) \<Rightarrow>
          andThen (visitNode visitor (Some c))
            (\<lambda>r. ret (case r of None \<Rightarrow> [] | Some c' \<Rightarrow> [(p, One c')]))
      | (p, Many cs) \<Rightarrow>
          andThen (emitNodes visitor cs) (\<lambda>r. ret [(p, Many r)]))"

definition accept :: "visitor \<Rightarrow> node \<Rightarrow> node list transform" where
  "accept visitor node =
     andThen (forEach (children node) (acceptChild visitor))
       (\<lambda>cs. ret [updateChildren node cs])"

definition declareLocal :: "Env \<Rightarrow> node transform" where
  "declareLocal env =
     (\<lambda>st. let tempVar = createIdentifier (freshLocal env (tempCount st))
           in Inr (tempVar, st\<lparr>tempCount := Suc (tempCount st),
                                hoistedVariableDeclarations := hoistedVariableDeclarations st @ [tempVar]\<rparr>))"

definition hoistVariableDeclaration :: "node \<Rightarrow> unit transform" where
  "hoistVariableDeclaration n =
     modify (\<lambda>st. st\<lparr>hoistedVariableDeclarations := hoistedVariableDeclarations st @ [n]\<rparr>)"


section \<open>Utilities\<close>

text \<open>
  Type guards and small helpers of the compiler's utilities.  A guard \<^verbatim>\<open>isX(node)\<close>
  tests the kind; it is false on \<^verbatim>\<open>undefined\<close>.
\<close>

definition getFirstConstructorWithBody :: "node \<Rightarrow> node option" where
  "getFirstConstructorWithBody n = find (\<lambda>m. kind m = Constructor \<and> body m \<noteq> None) (members n)"

definition getDeclarationName :: "Env \<Rightarrow> node \<Rightarrow> node" where
  "getDeclarationName env n = (case name n of Some m \<Rightarrow> m | None \<Rightarrow> getGeneratedNameForNode env n)"

definition isConst :: "node \<Rightarrow> bool" where
  "isConst n = (Const \<in> flags n)"

definition isAccessor :: "node \<Rightarrow> bool" where
  "isAccessor n = (kind n = GetAccessor \<or> kind n = SetAccessor)"

definition isClassLike :: "node \<Rightarrow> bool" where
  "isClassLike n = (kind n = ClassDeclaration \<or> kind n = ClassExpression)"

definition isFunctionLike :: "node \<Rightarrow> bool" where
  "isFunctionLike n =
     (kind n \<in> set [Constructor, FunctionExpression, FunctionDeclaration, ArrowFunction,
        MethodDeclaration, ''MethodSignature'', GetAccessor, SetAccessor, ''CallSignature'',
        ''ConstructSignature'', IndexSignature, FunctionType, ConstructorType])"

definition isAssignmentOperator :: "SyntaxKind \<Rightarrow> bool" where
  "isAssignmentOperator k =
     (k \<in> set [EqualsToken, PlusEqualsToken, MinusEqualsToken, AsteriskEqualsToken,
        AsteriskAsteriskEqualsToken, SlashEqualsToken, PercentEqualsToken, LessThanLessThanEqualsToken,
        GreaterThanGreaterThanEqualsToken, GreaterThanGreaterThanGreaterThanEqualsToken,
        AmpersandEqualsToken, BarEqualsToken, CaretEqualsToken])"

definition getSetAccessorTypeAnnotationNode :: "node \<Rightarrow> node option" where
  "getSetAccessorTypeAnnotationNode accessor =
     (case parameters accessor of [] \<Rightarrow> None | p # _ \<Rightarrow> typeOf p)"

definition bodyStatements :: "node \<Rightarrow> node list" where
  "bodyStatements n = (case body n of None \<Rightarrow> [] | Some b \<Rightarrow> statements b)"

definition nonEmpty :: "'a list \<Rightarrow> 'a list option" where
  "nonEmpty xs = (if xs = [] then None else Some xs)"

definition optList :: "'a option \<Rightarrow> 'a list" where
  "optList x = (case x of None \<Rightarrow> [] | Some y \<Rightarrow> [y])"

section \<open>The transform of es6.ts\<close>

text \<open>
  Every function below is the function of the same name in \<^verbatim>\<open>es6.ts\<close>.  A function that
  takes a \<^verbatim>\<open>write\<close> callback returns the list of the nodes it writes.  The recursive
  references to \<^verbatim>\<open>transformNode\<close> and \<^verbatim>\<open>transformModuleElement\<close> (the source passes them
  as callbacks to the framework) are the parameters \<open>visit\<close> and \<open>visitElement\<close>; the knot
  is tied in \<open>transformNode\<close> at the end of the section.
\<close>

definition isTopLevelExport :: "node \<Rightarrow> TransformState \<Rightarrow> bool" where
  "isTopLevelExport node st = (Export \<in> flags node \<and> hasKind SourceFile (getParentNode st))"

definition isTopLevelDefaultExport :: "node \<Rightarrow> TransformState \<Rightarrow> bool" where
  "isTopLevelDefaultExport node st = (isTopLevelExport node st \<and> Default \<in> flags node)"

definition isTopLevelNonDefaultExport :: "node \<Rightarrow> TransformState \<Rightarrow> bool" where
  "isTopLevelNonDefaultExport node st = (isTopLevelExport node st \<and> Default \<notin> flags node)"

definition isNamespaceLevelExport :: "node \<Rightarrow> TransformState \<Rightarrow> bool" where
  "isNamespaceLevelExport node st = (Export \<in> flags node \<and> \<not> hasKind SourceFile (getParentNode st))"

definition getContainingModule :: "TransformState \<Rightarrow> node option" where
  "getContainingModule st = findAncestorNode (\<lambda>n. kind n = ModuleDeclaration) st"

definition getContainingModuleName :: "Env \<Rightarrow> TransformState \<Rightarrow> node" where
  "getContainingModuleName env st =
     (case findAncestorNode (\<lambda>n. kind n = ModuleDeclaration) st of
        Some container \<Rightarrow> getGeneratedNameForNode env container
      | None \<Rightarrow> createIdentifier ''exports'')"

definition getModuleMemberName :: "Env \<Rightarrow> node \<Rightarrow> node transform" where
  "getModuleMemberName env node =
     (let declName = getDeclarationName env node
      in if kind declName \<noteq> Identifier then debugFail ''False expression.''
         else andThen (gets (\<lambda>st. Export \<in> getCombinedNodeFlags env (nodeStack st)))
           (\<lambda>exported.
              if exported then
                andThen (gets (getContainingModuleName env))
                  (\<lambda>container. ret (createPropertyAccessExpression2 (Some container) (Some declName)))
              else ret declName))"

definition getInitializedProperties :: "node \<Rightarrow> bool \<Rightarrow> node list option" where
  "getInitializedProperties node isStatic =
     nonEmpty (filter (\<lambda>member. kind member = PropertyDeclaration
                          \<and> isStatic = (Static \<in> flags member)
                          \<and> initializer member \<noteq> None) (members node))"

definition getParametersWithPropertyAssignments :: "node \<Rightarrow> node list option" where
  "getParametersWithPropertyAssignments node =
     nonEmpty (filter (\<lambda>parameter. hasKind Identifier (name parameter)
                          \<and> flags parameter \<inter> AccessibilityModifier \<noteq> {}) (parameters node))"

definition findInitialSuperCall :: "node \<Rightarrow> node option" where
  "findInitialSuperCall ctor =
     (case body ctor of
        None \<Rightarrow> None
      | Some b \<Rightarrow>
          (case statements b of
             [] \<Rightarrow> None
           | statement # _ \<Rightarrow>
               if kind statement = ExpressionStatement then
                 (case expression statement of
                    None \<Rightarrow> None
                  | Some expr \<Rightarrow>
                      if kind expr = CallExpression \<and> hasKind SuperKeyword (expression expr)
                      then Some statement else None)
               else None))"

definition getExpressionForPropertyName :: "Env \<Rightarrow> node \<Rightarrow> node transform" where
  "getExpressionForPropertyName env container =
     (case name container of
        None \<Rightarrow> typeError ''cloneNode(undefined)''
      | Some n \<Rightarrow>
          if kind n = Identifier then ret (createStringLiteral (nodeText n))
          else if kind n = ComputedPropertyName then ret (getGeneratedNameForNode env n)
          else ret (cloneNode n))"

definition transformPropertyName :: "Env \<Rightarrow> visitor \<Rightarrow> node \<Rightarrow> node transform" where
  "transformPropertyName env visit container =
     (case name container of
        None \<Rightarrow> typeError ''cloneNode(undefined)''
      | Some n \<Rightarrow>
          if kind n = ComputedPropertyName then
            andThen (visitNode visit (expression n))
              (\<lambda>e. if nodeCanBeDecorated env container \<and> nodeIsDecorated env container then
                      (let generatedName = getGeneratedNameForNode env n
                       in andThen (hoistVariableDeclaration generatedName)
                            (\<lambda>_. ret (updateComputedPropertyName n
                                        (Some (createAssignmentExpression (Some generatedName) e)))))
                    else ret (updateComputedPropertyName n e))
          else ret (cloneNode n))"

definition transformPropertyDeclaration :: "Env \<Rightarrow> visitor \<Rightarrow> node \<Rightarrow> node \<Rightarrow> node transform" where
  "transformPropertyDeclaration env visit node property =
     (let isStatic = (Static \<in> flags property);
          target = (if isStatic then getDeclarationName env node else createThisKeyword)
      in andThen (transformPropertyName env visit property)
           (\<lambda>propertyName.
              let left = createMemberAccessForPropertyName target (Some propertyName)
              in andThen (visitNode visit (initializer property))
                   (\<lambda>init. ret (createAssignmentExpression (Some left) init))))"

definition transformPropertyDeclarationsToStatements ::
  "Env \<Rightarrow> visitor \<Rightarrow> node \<Rightarrow> node list option \<Rightarrow> node list transform" where
  "transformPropertyDeclarationsToStatements env visit node properties =
     (case properties of
        None \<Rightarrow> ret []
      | Some ps \<Rightarrow>
          forEach ps (\<lambda>property.
            andThen (transformPropertyDeclaration env visit node property)
              (\<lambda>e. ret [createExpressionStatement e {}])))"

definition transformPropertyDeclarationsToExpressions ::
  "Env \<Rightarrow> visitor \<Rightarrow> node \<Rightarrow> node list option \<Rightarrow> node list transform" where
  "transformPropertyDeclarationsToExpressions env visit node properties =
     (case properties of
        None \<Rightarrow> ret []
      | Some ps \<Rightarrow>
          forEach ps (\<lambda>property.
            andThen (transformPropertyDeclaration env visit node property) (\<lambda>e. ret [e])))"

text \<open>
  \<^verbatim>\<open>emitConstructorBody\<close> takes the base type, the constructor and the two assignment
  lists from the scope-context variables (lines 396-399).
\<close>

definition emitConstructorBody :: "Env \<Rightarrow> visitor \<Rightarrow> node \<Rightarrow> node list transform" where
  "emitConstructorBody env visit node =
     andThen (gets currentBaseTypeNode) (\<lambda>baseTypeNode.
     andThen (gets currentConstructor) (\<lambda>ctor.
     andThen (gets currentParametersWithPropertyAssignments) (\<lambda>parameterPropertyAssignments.
     andThen (gets currentInstancePropertyAssignments) (\<lambda>instancePropertyAssignments.
       let superCall =
             (case ctor of
                Some c \<Rightarrow> if baseTypeNode \<noteq> None then findInitialSuperCall c else None
              | None \<Rightarrow> None);
           leading =
             (case ctor of
                Some c \<Rightarrow>
                  optList superCall @
                  (case parameterPropertyAssignments of
                     None \<Rightarrow> []
                   | Some ps \<Rightarrow>
                       map (\<lambda>parameter.
                              let paramName = map_option cloneNode (name parameter);
                                  propExpr = createPropertyAccessExpression2 (Some createThisKeyword) paramName
                              in createExpressionStatement
                                   (createAssignmentExpression (Some propExpr) paramName) {}) ps)
              | None \<Rightarrow>
                  if baseTypeNode \<noteq> None then
                    [createExpressionStatement
                       (createCallExpression2 createSuperKeyword
                          [createSpreadElementExpression (createIdentifier ''args'')])
                       {GeneratedSuper}]
                  else [])
       in andThen (transformPropertyDeclarationsToStatements env visit node instancePropertyAssignments)
            (\<lambda>propertyStatements.
               andThen (case ctor of
                          None \<Rightarrow> ret []
                        | Some c \<Rightarrow>
                            pipeNodes visit
                              (if superCall \<noteq> None then drop 1 (bodyStatements c) else bodyStatements c))
                 (\<lambda>rest. ret (leading @ propertyStatements @ rest)))))))"

definition transformConstructor :: "Env \<Rightarrow> visitor \<Rightarrow> node \<Rightarrow> node option \<Rightarrow> node option transform" where
  "transformConstructor env visit node baseTypeNode =
     (let ctor = getFirstConstructorWithBody node;
          parameterPropertyAssignments =
            (case ctor of Some c \<Rightarrow> getParametersWithPropertyAssignments c | None \<Rightarrow> None);
          instancePropertyAssignments = getInitializedProperties node False
      in if parameterPropertyAssignments = None \<and> instancePropertyAssignments = None then ret ctor
         else
           andThen (case ctor of
                      Some c \<Rightarrow> emitNodes visit (parameters c)
                    | None \<Rightarrow>
                        ret (if baseTypeNode \<noteq> None
                             then [createRestParameter (createIdentifier ''args'') {GeneratedRest}]
                             else []))
             (\<lambda>params.
           andThen (gets currentBaseTypeNode) (\<lambda>savedCurrentBaseTypeNode.
           andThen (gets currentConstructor) (\<lambda>savedCurrentConstructor.
           andThen (gets currentParametersWithPropertyAssignments)
             (\<lambda>savedCurrentParametersWithPropertyAssignments.
           andThen (gets currentInstancePropertyAssignments)
             (\<lambda>savedCurrentInstancePropertyAssignments.
           andThen (emitNode (emitConstructorBody env visit) node) (\<lambda>stmts.
           andThen (modify (\<lambda>st. st
                      \<lparr> currentBaseTypeNode := savedCurrentBaseTypeNode,
                        currentConstructor := savedCurrentConstructor,
                        currentParametersWithPropertyAssignments :=
                          savedCurrentParametersWithPropertyAssignments,
                        currentInstancePropertyAssignments :=
                          savedCurrentInstancePropertyAssignments \<rparr>))
             (\<lambda>_. ret (Some (createConstructor2 params (createBlock stmts)))))))))))"

definition transformHeritageClause :: "visitor \<Rightarrow> node \<Rightarrow> node list transform" where
  "transformHeritageClause visit node =
     (if token node = Some ExtendsKeyword then
        andThen (visitNodes visit (arrayOf node P_types))
          (\<lambda>ts. ret [updateHeritageClause node ts])
      else ret [])"

definition transformExpressionWithTypeArguments :: "visitor \<Rightarrow> node \<Rightarrow> node list transform" where
  "transformExpressionWithTypeArguments visit node =
     andThen (visitNode visit (expression node))
       (\<lambda>e. ret [updateExpressionWithTypeArguments node e])"

definition visitAndGetClassExtendsHeritageClauseElement :: "visitor \<Rightarrow> node \<Rightarrow> node option transform" where
  "visitAndGetClassExtendsHeritageClauseElement visit node =
     (case getNodes node P_heritageClauses of
        None \<Rightarrow> ret None
      | Some clauses \<Rightarrow>
          andThen (visitNodes visit clauses)
            (\<lambda>heritageClauses.
               ret (case heritageClauses of
                      [] \<Rightarrow> None
                    | extendsClause # _ \<Rightarrow>
                        (case arrayOf extendsClause P_types of [] \<Rightarrow> None | b # _ \<Rightarrow> Some b))))"


subsection \<open>Reflection metadata\<close>

definition shouldAppendTypeMetadata :: "node \<Rightarrow> bool" where
  "shouldAppendTypeMetadata node =
     (kind node \<in> set [MethodDeclaration, GetAccessor, SetAccessor, PropertyDeclaration])"

definition shouldAppendReturnTypeMetadata :: "node \<Rightarrow> bool" where
  "shouldAppendReturnTypeMetadata node = (kind node = MethodDeclaration)"

definition shouldAppendParamTypesMetadata :: "node \<Rightarrow> bool" where
  "shouldAppendParamTypesMetadata node =
     (kind node \<in> set [ClassDeclaration, MethodDeclaration, SetAccessor])"

definition getGlobalSymbolNameWithFallback :: node where
  "getGlobalSymbolNameWithFallback =
     (let globalSymbolName = createIdentifier ''Symbol'';
          globalObjectName = createIdentifier ''Object'';
          typeOfExpr = createTypeOfExpression globalSymbolName;
          functionLiteral = createStringLiteral ''function'';
          equalityExpr = createStrictEqualityExpression (Some typeOfExpr) (Some functionLiteral)
      in createConditionalExpression2 equalityExpr globalSymbolName globalObjectName)"

text \<open>
  \<^verbatim>\<open>serializeTypeReferenceNode\<close> starts with \<^verbatim>\<open>Debug.fail("parent pointer")\<close> (line 1278):
  it aborts on every call, and the rest of its body, with \<^verbatim>\<open>serializeEntityNameAsExpression\<close>
  and \<^verbatim>\<open>serializeQualifiedNameAsExpression\<close> that only it calls, is never reached.
\<close>

definition serializeTypeReferenceNode :: "node \<Rightarrow> node transform" where
  "serializeTypeReferenceNode node = debugFail ''parent pointer''"

lemma map_of_child_size:
  "map_of cs p = Some (One c) \<Longrightarrow> size c < size_list (size_prod (\<lambda>_. 0) (size_child size)) cs"
  by (induction cs) (auto split: if_splits)

lemma getNode_size: "getNode n p = Some c \<Longrightarrow> size c < size n"
  by (cases n) (auto simp: getNode_def split: option.splits child.splits dest!: map_of_child_size)

lemma map_of_children_size:
  "map_of cs p = Some (Many xs) \<Longrightarrow> c \<in> set xs
     \<Longrightarrow> size c < size_list (size_prod (\<lambda>_. 0) (size_child size)) cs"
  by (induction cs)
     (auto split: if_splits
           dest: size_list_estimation' [where f = size and y = "size c", OF _ order_refl])

lemma arrayOf_size: "c \<in> set (arrayOf n p) \<Longrightarrow> size c < size n"
  by (cases n)
     (auto simp: arrayOf_def getNodes_def split: option.splits child.splits
           dest!: map_of_children_size)

function serializeTypeNode :: "Env \<Rightarrow> node option \<Rightarrow> node transform" where
  "serializeTypeNode env n =
     (case n of
        None \<Rightarrow> ret (createIdentifier ''Object'')
      | Some node \<Rightarrow>
          if kind node = VoidKeyword then ret createVoidZeroExpression
          else if kind node = ParenthesizedType then serializeTypeNode env (getNode node P_type)
          else if kind node = FunctionType \<or> kind node = ConstructorType
            then ret (createIdentifier ''Function'')
          else if kind node = ArrayType \<or> kind node = TupleType
            then ret (createIdentifier ''Array'')
          else if kind node = TypePredicate \<or> kind node = BooleanKeyword
            then ret (createIdentifier ''Boolean'')
          else if kind node = StringKeyword \<or> kind node = StringLiteral
            then ret (createIdentifier ''String'')
          else if kind node = NumberKeyword then ret (createIdentifier ''Number'')
          else if kind node = SymbolKeyword then
            ret (if languageVersion env \<noteq> ES6 then getGlobalSymbolNameWithFallback
                 else createIdentifier ''Symbol'')
          else if kind node = TypeReference then serializeTypeReferenceNode node
          else if kind node \<in> set [TypeQuery, TypeLiteral, UnionType, IntersectionType, AnyKeyword]
            then ret (createIdentifier ''Object'')
          else debugFail ''Cannot serialize unexpected type node.'')"
  by pat_completeness auto
termination
  by (relation "measure (\<lambda>(env, n). case n of None \<Rightarrow> 0 | Some m \<Rightarrow> Suc (size m))")
     (auto split: option.splits dest: getNode_size)

declare serializeTypeNode.simps [simp del]

definition serializeTypeOfNode :: "Env \<Rightarrow> node \<Rightarrow> node transform" where
  "serializeTypeOfNode env node =
     (if kind node = PropertyDeclaration \<or> kind node = Parameter \<or> kind node = GetAccessor
        then serializeTypeNode env (typeOf node)
      else if kind node = SetAccessor
        then serializeTypeNode env (getSetAccessorTypeAnnotationNode node)
      else if isClassLike node \<or> isFunctionLike node then ret (createIdentifier ''Function'')
      else ret createVoidZeroExpression)"

definition serializeParameterTypesOfNode :: "Env \<Rightarrow> node \<Rightarrow> node transform" where
  "serializeParameterTypesOfNode env node =
     (let valueDeclaration =
            (if isClassLike node then getFirstConstructorWithBody node
             else if isFunctionLike node \<and> body node \<noteq> None then Some node
             else None)
      in andThen
           (case valueDeclaration of
              None \<Rightarrow> ret []
            | Some d \<Rightarrow>
                forEach (parameters d) (\<lambda>parameter.
                  if getNode parameter P_dotDotDotToken \<noteq> None then
                    (let parameterType = typeOf parameter;
                         elementType =
                           (case parameterType of
                              None \<Rightarrow> None
                            | Some t \<Rightarrow>
                                if kind t = ArrayType then getNode t P_elementType
                                else if kind t = TypeReference then
                                  (case getNodes t P_typeArguments of
                                     Some [a] \<Rightarrow> Some a
                                   | _ \<Rightarrow> None)
                                else None)
                     in andThen (serializeTypeNode env elementType) (\<lambda>e. ret [e]))
                  else andThen (serializeTypeOfNode env parameter) (\<lambda>e. ret [e])))
           (\<lambda>parameterTypeExpressions. ret (createArrayLiteralExpression parameterTypeExpressions)))"

definition serializeReturnTypeOfNode :: "Env \<Rightarrow> node \<Rightarrow> node option transform" where
  "serializeReturnTypeOfNode env node =
     (if isFunctionLike node then andThen (serializeTypeNode env (typeOf node)) (\<lambda>e. ret (Some e))
      else ret None)"

definition appendSerializedTypeMetadata :: "Env \<Rightarrow> node \<Rightarrow> node list transform" where
  "appendSerializedTypeMetadata env node =
     andThen
       (if shouldAppendTypeMetadata node then
          andThen (serializeTypeOfNode env node)
            (\<lambda>typeExpr. ret [createMetadataHelperCall ''design:type''
                                (createArrowFunction2 [] (Some typeExpr))])
        else ret [])
       (\<lambda>a. andThen
          (if shouldAppendParamTypesMetadata node then
             andThen (serializeParameterTypesOfNode env node)
               (\<lambda>paramTypesExpr. ret [createMetadataHelperCall ''design:paramtypes''
                                         (createArrowFunction2 [] (Some paramTypesExpr))])
           else ret [])
          (\<lambda>b. andThen
             (if shouldAppendReturnTypeMetadata node then
                andThen (serializeReturnTypeOfNode env node)
                  (\<lambda>returnTypeExpr. ret [createMetadataHelperCall ''design:returntype''
                                            (createArrowFunction2 [] returnTypeExpr)])
              else ret [])
             (\<lambda>c. ret (a @ b @ c))))"

subsection \<open>Decorators\<close>

text \<open>
  The loop \<^verbatim>\<open>for (let decorator of decorators) decoratorExpressions.push(visitNode(decorator.expression, transformNode))\<close>
  of lines 986-988 and 1071-1073.
\<close>

definition visitDecoratorExpressions :: "visitor \<Rightarrow> node list option \<Rightarrow> node list transform" where
  "visitDecoratorExpressions visit ds =
     (case ds of
        None \<Rightarrow> ret []
      | Some xs \<Rightarrow>
          forEach xs (\<lambda>decorator.
            andThen (visitNode visit (expression decorator)) (\<lambda>e. ret (optList e))))"

definition appendDecoratorsOfParameters :: "Env \<Rightarrow> visitor \<Rightarrow> node list \<Rightarrow> node list transform" where
  "appendDecoratorsOfParameters env visit params =
     forEach (zip [0 ..< length params] params) (\<lambda>(parameterIndex, parameter).
       if nodeIsDecorated env parameter then
         (case decorators parameter of
            None \<Rightarrow> typeError ''parameter.decorators is undefined''
          | Some ds \<Rightarrow>
              forEach ds (\<lambda>decorator.
                andThen (visitNode visit (expression decorator))
                  (\<lambda>decoratorExpr. ret [createParamHelperCall parameterIndex decoratorExpr])))
       else ret [])"

definition transformDecoratorsOfMember :: "Env \<Rightarrow> visitor \<Rightarrow> node \<Rightarrow> node \<Rightarrow> node list transform" where
  "transformDecoratorsOfMember env visit node member =
     (let selected =
            (if isAccessor member \<and> body member \<noteq> None then
               (let accessors = getAllAccessorDeclarations env (members node) member
                in if \<not> sameNode member (firstAccessor accessors) then None
                   else Some
                     ((case decorators (firstAccessor accessors) of
                         Some ds \<Rightarrow> Some ds
                       | None \<Rightarrow>
                           (case secondAccessor accessors of
                              Some second \<Rightarrow> decorators second
                            | None \<Rightarrow> None)),
                      (case setAccessor accessors of
                         Some setter \<Rightarrow> Some (parameters setter)
                       | None \<Rightarrow> None)))
             else Some
               (decorators member,
                if kind member = MethodDeclaration \<and> body member \<noteq> None
                then Some (parameters member) else None))
      in case selected of
           None \<Rightarrow> ret []
         | Some (decoratorList, parameterList) \<Rightarrow>
             andThen (visitDecoratorExpressions visit decoratorList) (\<lambda>fromDecorators.
             andThen (case parameterList of
                        None \<Rightarrow> ret []
                      | Some ps \<Rightarrow> appendDecoratorsOfParameters env visit ps) (\<lambda>fromParameters.
             andThen (if emitDecoratorMetadata env then appendSerializedTypeMetadata env node
                      else ret []) (\<lambda>fromMetadata.
             andThen (getExpressionForPropertyName env member) (\<lambda>memberName.
               let decoratorExpressions = fromDecorators @ fromParameters @ fromMetadata;
                   prefix = getClassMemberPrefix env node member
               in if kind member = PropertyDeclaration then
                    ret [createExpressionStatement
                           (createDecorateHelperCall decoratorExpressions
                              (Some prefix) (Some memberName) None) {}]
                  else
                    ret [createExpressionStatement
                           (createDefinePropertyCall prefix memberName
                              (createDecorateHelperCall decoratorExpressions
                                 (Some prefix) (Some memberName)
                                 (Some (createGetOwnPropertyDescriptorCall prefix memberName)))) {}])))))"

definition transformDecoratorsOfMembers :: "Env \<Rightarrow> visitor \<Rightarrow> node \<Rightarrow> bool \<Rightarrow> node list transform" where
  "transformDecoratorsOfMembers env visit node isStatic =
     forEach (members node) (\<lambda>member.
       if isStatic \<noteq> (Static \<in> flags member) then ret []
       else if \<not> nodeCanBeDecorated env member \<or> \<not> nodeOrChildIsDecorated env member then ret []
       else transformDecoratorsOfMember env visit node member)"

definition hasDecoratedParameters :: "Env \<Rightarrow> node \<Rightarrow> bool" where
  "hasDecoratedParameters env node =
     (case getFirstConstructorWithBody node of
        None \<Rightarrow> False
      | Some ctor \<Rightarrow> list_ex (nodeIsDecorated env) (parameters ctor))"

definition transformDecoratorsOfConstructor :: "Env \<Rightarrow> visitor \<Rightarrow> node \<Rightarrow> node list transform" where
  "transformDecoratorsOfConstructor env visit node =
     (if decorators node = None \<and> \<not> hasDecoratedParameters env node then ret []
      else
        andThen (visitDecoratorExpressions visit (decorators node)) (\<lambda>fromDecorators.
        andThen (case getFirstConstructorWithBody node of
                   None \<Rightarrow> ret []
                 | Some ctor \<Rightarrow> appendDecoratorsOfParameters env visit (parameters ctor))
          (\<lambda>fromParameters.
        andThen (if emitDecoratorMetadata env then appendSerializedTypeMetadata env node
                 else ret []) (\<lambda>fromMetadata.
          let decoratorExpressions = fromDecorators @ fromParameters @ fromMetadata;
              className = getDeclarationName env node
          in ret [createExpressionStatement
                    (createDecorateHelperCall decoratorExpressions (Some className) None None) {}]))))"


subsection \<open>Classes\<close>

definition transformClassDeclaration :: "Env \<Rightarrow> visitor \<Rightarrow> node \<Rightarrow> node list transform" where
  "transformClassDeclaration env visit node =
     andThen (visitAndGetClassExtendsHeritageClauseElement visit node) (\<lambda>baseTypeNode.
     andThen (transformConstructor env visit node baseTypeNode) (\<lambda>ctor.
     andThen (emitNodes visit (members node)) (\<lambda>transformedMembers.
     andThen (gets (isTopLevelNonDefaultExport node)) (\<lambda>topLevelNonDefaultExport.
     andThen (gets (isNamespaceLevelExport node)) (\<lambda>namespaceLevelExport.
       let classMembers = optList ctor @ transformedMembers;
           declaration =
             (if nodeIsDecorated env node then
                createSimpleLetStatement (Some (getDeclarationName env node))
                  (createClassExpression3 baseTypeNode classMembers) topLevelNonDefaultExport
              else
                createClassDeclaration2 (Some (getDeclarationName env node)) baseTypeNode classMembers
                  (if namespaceLevelExport then {} else flags node \<inter> {Export, Default}))
       in
     andThen (transformPropertyDeclarationsToStatements env visit node
                (getInitializedProperties node True)) (\<lambda>staticProperties.
     andThen (transformDecoratorsOfMembers env visit node False) (\<lambda>instanceDecorators.
     andThen (transformDecoratorsOfMembers env visit node True) (\<lambda>staticDecorators.
     andThen (transformDecoratorsOfConstructor env visit node) (\<lambda>constructorDecorators.
     andThen (gets (isNamespaceLevelExport node)) (\<lambda>namespaceLevelExport'.
     andThen (if namespaceLevelExport' then
                andThen (getModuleMemberName env node)
                  (\<lambda>memberName.
                     ret [createExpressionStatement
                            (createAssignmentExpression (Some memberName)
                               (Some (getDeclarationName env node))) {}])
              else
                andThen (gets (isTopLevelDefaultExport node))
                  (\<lambda>topLevelDefaultExport.
                     ret (if topLevelDefaultExport \<and> nodeIsDecorated env node
                          then [createExportDefaultStatement (Some (getDeclarationName env node))]
                          else []))) (\<lambda>trailer.
       ret (declaration # staticProperties @ instanceDecorators @ staticDecorators
              @ constructorDecorators @ trailer))))))))))))"

definition transformClassExpression :: "Env \<Rightarrow> visitor \<Rightarrow> node \<Rightarrow> node list transform" where
  "transformClassExpression env visit node =
     andThen (visitAndGetClassExtendsHeritageClauseElement visit node) (\<lambda>baseTypeNode.
     andThen (transformConstructor env visit node baseTypeNode) (\<lambda>ctor.
     andThen (emitNodes visit (members node)) (\<lambda>transformedMembers.
       let classMembers = optList ctor @ transformedMembers;
           classExpr = createClassExpression2 (Some (getDeclarationName env node)) baseTypeNode classMembers;
           staticPropertyAssignments = getInitializedProperties node True
       in if staticPropertyAssignments \<noteq> None then
            andThen (declareLocal env) (\<lambda>tempVar.
            andThen (transformPropertyDeclarationsToExpressions env visit node
                       staticPropertyAssignments) (\<lambda>assignments.
              let cacheExpr = createAssignmentExpression (Some tempVar) (Some classExpr)
              in ret (map createParenthesizedExpression
                        (optList (inlineExpressions (cacheExpr # assignments @ [tempVar]))))))
          else ret [classExpr])))"

subsection \<open>Functions and parameters\<close>

definition transformAsyncFunctionBody :: "Env \<Rightarrow> visitor \<Rightarrow> node \<Rightarrow> node option transform" where
  "transformAsyncFunctionBody env visit node =
     (let promiseConstructor = getEntityNameFromTypeNode env (typeOf node);
          hasLexicalArguments = (CaptureArguments \<in> getNodeCheckFlags env node)
      in andThen
           (if \<not> hasKind Block (body node) then
              andThen (visitNode visit (body node))
                (\<lambda>bodyExpr. ret (Some (createBlock [createReturnStatement bodyExpr])))
            else visitNode visit (body node))
           (\<lambda>generatorBody.
              let callExpr = createAwaiterHelperCall hasLexicalArguments promiseConstructor generatorBody
              in if kind node = ArrowFunction then ret (Some callExpr)
                 else ret (Some (createBlock [createReturnStatement (Some callExpr)]))))"

definition transformFunctionBody :: "Env \<Rightarrow> visitor \<Rightarrow> node \<Rightarrow> node option transform" where
  "transformFunctionBody env visit node =
     (if isAsyncFunctionLike env node then transformAsyncFunctionBody env visit node
      else visitNewLexicalEnvironment visit (body node))"

definition transformMethodDeclaration :: "Env \<Rightarrow> visitor \<Rightarrow> node \<Rightarrow> node list transform" where
  "transformMethodDeclaration env visit node =
     (if body node = None \<or> Abstract \<in> flags node then ret []
      else
        andThen (transformPropertyName env visit node) (\<lambda>methodName.
        andThen (visitNodes visit (parameters node)) (\<lambda>params.
        andThen (transformFunctionBody env visit node) (\<lambda>newBody.
          ret [createMethodDeclaration2 methodName params newBody (flags node \<inter> {Static})]))))"

definition transformGetAccessor :: "Env \<Rightarrow> visitor \<Rightarrow> node \<Rightarrow> node list transform" where
  "transformGetAccessor env visit node =
     (if Abstract \<in> flags node then ret []
      else
        andThen (transformPropertyName env visit node) (\<lambda>accessorName.
        andThen (visitNodes visit (parameters node)) (\<lambda>params.
        andThen (visitNode visit (body node)) (\<lambda>newBody.
          ret [createGetAccessor2 accessorName params newBody (flags node \<inter> {Static})]))))"

definition transformSetAccessor :: "Env \<Rightarrow> visitor \<Rightarrow> node \<Rightarrow> node list transform" where
  "transformSetAccessor env visit node =
     (if Abstract \<in> flags node then ret []
      else
        andThen (transformPropertyName env visit node) (\<lambda>accessorName.
        andThen (visitNodes visit (parameters node)) (\<lambda>params.
        andThen (visitNode visit (body node)) (\<lambda>newBody.
          ret [createSetAccessor2 accessorName params newBody (flags node \<inter> {Static})]))))"

definition transformFunctionDeclaration :: "Env \<Rightarrow> visitor \<Rightarrow> node \<Rightarrow> node list transform" where
  "transformFunctionDeclaration env visit node =
     (if body node = None then ret []
      else
        andThen (gets (isNamespaceLevelExport node)) (\<lambda>thisNodeIsNamespaceExport.
        andThen (visitNodes visit (parameters node)) (\<lambda>params.
        andThen (transformFunctionBody env visit node) (\<lambda>newBody.
          let declaration =
                createFunctionDeclaration3 (getNode node P_asteriskToken) (name node) params newBody
                  (if \<not> thisNodeIsNamespaceExport then flags node \<inter> {Default, Export} else {})
          in if thisNodeIsNamespaceExport then
               andThen (getModuleMemberName env node)
                 (\<lambda>memberName.
                    ret [declaration,
                         createExpressionStatement
                           (createAssignmentExpression (Some memberName)
                              (map_option cloneNode (name node))) {}])
             else ret [declaration]))))"

definition transformFunctionExpression :: "Env \<Rightarrow> visitor \<Rightarrow> node \<Rightarrow> node list transform" where
  "transformFunctionExpression env visit node =
     andThen (visitNodes visit (parameters node)) (\<lambda>params.
     andThen (transformFunctionBody env visit node) (\<lambda>newBody.
       ret [createFunctionExpression3 (getNode node P_asteriskToken) (name node) params newBody]))"

definition transformArrowFunction :: "Env \<Rightarrow> visitor \<Rightarrow> node \<Rightarrow> node list transform" where
  "transformArrowFunction env visit node =
     andThen (visitNodes visit (parameters node)) (\<lambda>params.
     andThen (transformFunctionBody env visit node) (\<lambda>newBody.
       ret [createArrowFunction2 params newBody]))"

definition transformParameter :: "visitor \<Rightarrow> node \<Rightarrow> node list transform" where
  "transformParameter visit node =
     andThen (visitNode visit (name node)) (\<lambda>paramName.
     andThen (visitNode visit (initializer node)) (\<lambda>init.
       ret [createParameter2 paramName init (flags node - AccessibilityModifier)]))"

subsection \<open>Variable statements\<close>

text \<open>
  The body of \<^verbatim>\<open>transformVariableStatement\<close> is the generic descent: the conversion of
  the declarations is commented out (lines 710-712).  The four functions after it are
  those the commented-out line would have reached; nothing calls them.
\<close>

definition transformVariableStatement :: "visitor \<Rightarrow> node \<Rightarrow> node list transform" where
  "transformVariableStatement visit node = accept visit node"

definition transformObjectBindingPatternToExpression :: "node \<Rightarrow> node list transform" where
  "transformObjectBindingPatternToExpression node = debugFail ''not implemented''"

definition transformArrayBindingPatternToExpression :: "node \<Rightarrow> node list transform" where
  "transformArrayBindingPatternToExpression node = debugFail ''not implemented''"

definition transformBindingPatternToExpression :: "node \<Rightarrow> node list transform" where
  "transformBindingPatternToExpression node =
     (if kind node = ObjectBindingPattern then transformObjectBindingPatternToExpression node
      else if kind node = ArrayBindingPattern then transformArrayBindingPatternToExpression node
      else ret [])"

definition transformVariableDeclarationToExpression :: "Env \<Rightarrow> visitor \<Rightarrow> node \<Rightarrow> node list transform" where
  "transformVariableDeclarationToExpression env visit node =
     (if initializer node = None then ret []
      else if hasKind ObjectBindingPattern (name node) \<or> hasKind ArrayBindingPattern (name node) then
        andThen (visitNode transformBindingPatternToExpression (name node)) (\<lambda>expr.
        andThen (visitNode visit (initializer node)) (\<lambda>init.
          ret [createParenthesizedExpression (createAssignmentExpression expr init)]))
      else
        andThen (getModuleMemberName env node) (\<lambda>memberName.
        andThen (visitNode visit (initializer node)) (\<lambda>init.
          ret [createAssignmentExpression (Some memberName) init])))"

definition transformVariableDeclarationListToExpressionStatement ::
  "Env \<Rightarrow> visitor \<Rightarrow> node \<Rightarrow> node list transform" where
  "transformVariableDeclarationListToExpressionStatement env visit node =
     andThen (visitNodes (transformVariableDeclarationToExpression env visit)
                (arrayOf node P_declarations))
       (\<lambda>expressions.
          ret (map (\<lambda>e. createExpressionStatement e {}) (optList (inlineExpressions expressions))))"

subsection \<open>Namespaces and enums\<close>

definition shouldEmitModuleDeclaration :: "Env \<Rightarrow> node \<Rightarrow> bool" where
  "shouldEmitModuleDeclaration env node =
     isInstantiatedModule env node (preserveConstEnums env \<or> isolatedModules env)"

definition isModuleMergedWithClass :: "Env \<Rightarrow> node \<Rightarrow> bool" where
  "isModuleMergedWithClass env node = (LexicalModuleMergesWithClass \<in> getNodeCheckFlags env node)"

definition transformModuleDeclaration :: "Env \<Rightarrow> visitor \<Rightarrow> visitor \<Rightarrow> node \<Rightarrow> node list transform" where
  "transformModuleDeclaration env visit visitElement node =
     (if \<not> shouldEmitModuleDeclaration env node then ret []
      else
        andThen (if \<not> isModuleMergedWithClass env node then
                   andThen (gets (isTopLevelExport node))
                     (\<lambda>topLevelExport.
                        ret [createVariableStatement2
                               (createVariableDeclarationList
                                  [createVariableDeclaration2 (name node) None {}])
                               (if topLevelExport then {Export} else {})])
                 else ret []) (\<lambda>forward.
        let localName = getGeneratedNameForNode env node;
            localParam = createParameter2 (Some localName) None {}
        in
        andThen (if hasKind ModuleBlock (body node) then
                   andThen (visitNodes visitElement (bodyStatements node))
                     (\<lambda>stmts. ret (createBlock stmts))
                 else
                   andThen (visitStatement visit (body node))
                     (\<lambda>inner. ret (case inner of
                                     None \<Rightarrow> createBlock []
                                   | Some i \<Rightarrow> if kind i = Block then i else createBlock [i])))
          (\<lambda>moduleBody.
        let funcExpr = createFunctionExpression2 None [localParam] moduleBody;
            parenExpr = createParenthesizedExpression funcExpr
        in
        andThen (getModuleMemberName env node) (\<lambda>moduleMemberName.
        andThen (gets (isNamespaceLevelExport node)) (\<lambda>namespaceLevelExport.
          let moduleStorageObjExpr = createObjectLiteralExpression2 [];
              moduleStorageInitExpr =
                createAssignmentExpression (Some moduleMemberName) (Some moduleStorageObjExpr);
              moduleStorageExpr =
                createLogicalOrExpression (Some moduleMemberName) (Some moduleStorageInitExpr);
              moduleParam =
                (if namespaceLevelExport
                 then createAssignmentExpression (map_option cloneNode (name node)) (Some moduleStorageExpr)
                 else moduleStorageExpr);
              callExpr = createCallExpression2 parenExpr [moduleParam];
              callStmt = createExpressionStatement callExpr {GeneratedNamespace}
          in ret (forward @ [callStmt]))))))"

definition shouldEmitEnumDeclaration :: "Env \<Rightarrow> node \<Rightarrow> bool" where
  "shouldEmitEnumDeclaration env node =
     (isConst node \<or> preserveConstEnums env \<or> isolatedModules env)"

definition getEnumMemberDeclarationValue :: "Env \<Rightarrow> visitor \<Rightarrow> node \<Rightarrow> node option transform" where
  "getEnumMemberDeclarationValue env visit member =
     (case getConstantValue env member of
        Some v \<Rightarrow> ret (Some (createNumericLiteral2 v))
      | None \<Rightarrow>
          if initializer member \<noteq> None then visitNode visit (initializer member)
          else ret (Some createVoidZeroExpression))"

definition emitEnumMember :: "Env \<Rightarrow> visitor \<Rightarrow> node \<Rightarrow> node list transform" where
  "emitEnumMember env visit node =
     andThen (getExpressionForPropertyName env node) (\<lambda>enumNameExpr.
     andThen (getEnumMemberDeclarationValue env visit node) (\<lambda>enumValueExpr.
     andThen (gets currentEnumLocalName) (\<lambda>enumLocalName.
       let enumNameElemExpr = createElementAccessExpression2 enumLocalName enumNameExpr;
           enumValueAssignExpr = createAssignmentExpression (Some enumNameElemExpr) enumValueExpr;
           enumValueElemExpr = createElementAccessExpression2 enumLocalName enumValueAssignExpr;
           enumNameAssignExpr = createAssignmentExpression (Some enumValueElemExpr) (Some enumNameExpr);
           enumMemberStmt = createExpressionStatement enumNameAssignExpr {}
       in ret [enumMemberStmt])))"

definition transformEnumDeclaration :: "Env \<Rightarrow> visitor \<Rightarrow> node \<Rightarrow> node list transform" where
  "transformEnumDeclaration env visit node =
     (if \<not> shouldEmitEnumDeclaration env node then ret []
      else
        andThen (gets currentEnumLocalName) (\<lambda>savedCurrentEnumLocalName.
        andThen (modify (\<lambda>st. st\<lparr>currentEnumLocalName := Some (getGeneratedNameForNode env node)\<rparr>))
          (\<lambda>_.
        andThen (gets (isNamespaceLevelExport node)) (\<lambda>namespaceLevelExport.
        andThen (if \<not> namespaceLevelExport then
                   andThen (gets (isTopLevelExport node))
                     (\<lambda>topLevelExport.
                        ret [createVariableStatement2
                               (createVariableDeclarationList
                                  [createVariableDeclaration2 (name node) None
                                     (if topLevelExport then {Export} else {})])
                               {}])
                 else ret []) (\<lambda>forward.
        andThen (emitNodes (emitEnumMember env visit) (members node)) (\<lambda>enumStatements.
        andThen (gets currentEnumLocalName) (\<lambda>enumLocalName.
        let enumBody = createBlock enumStatements;
            localNameParam = createParameter2 enumLocalName None {};
            enumDecl = createFunctionExpression2 None [localNameParam] enumBody;
            parenExpr = createParenthesizedExpression enumDecl
        in
        andThen (getModuleMemberName env node) (\<lambda>moduleMemberName.
        let enumStorageObjectExpr = createObjectLiteralExpression2 [];
            enumStorageInitExpr =
              createAssignmentExpression (Some moduleMemberName) (Some enumStorageObjectExpr);
            enumStorageExpr =
              createLogicalOrExpression (Some moduleMemberName) (Some enumStorageInitExpr);
            callExpr = createCallExpression2 parenExpr [enumStorageExpr];
            callStmt = createExpressionStatement callExpr {}
        in
        andThen (gets (isNamespaceLevelExport node)) (\<lambda>namespaceLevelExport'.
        andThen (modify (\<lambda>st. st\<lparr>currentEnumLocalName := savedCurrentEnumLocalName\<rparr>)) (\<lambda>_.
          ret (forward @ [callStmt] @
               (if namespaceLevelExport' then
                  [createVariableStatement2
                     (createVariableDeclarationList
                        [createVariableDeclaration2 (name node) (Some moduleMemberName) {}])
                     {}]
                else []))))))))))))"

subsection \<open>Await expressions\<close>

definition needsParenthesisForAwaitExpressionAsYield :: "node \<Rightarrow> TransformState \<Rightarrow> bool" where
  "needsParenthesisForAwaitExpressionAsYield node st =
     (case getParentNode st of
        None \<Rightarrow> False
      | Some parentNode \<Rightarrow>
          if kind parentNode = BinaryExpression
             \<and> \<not> (case getNode parentNode P_operatorToken of
                     None \<Rightarrow> False
                   | Some operatorToken \<Rightarrow> isAssignmentOperator (kind operatorToken))
          then True
          else if kind parentNode = ConditionalExpression
             \<and> (case getNode parentNode P_condition of
                   None \<Rightarrow> False
                 | Some c \<Rightarrow> sameNode c node)
          then True
          else False)"

definition transformAwaitExpression :: "visitor \<Rightarrow> node \<Rightarrow> node list transform" where
  "transformAwaitExpression visit node =
     andThen (visitNode visit (expression node)) (\<lambda>e.
     andThen (gets (needsParenthesisForAwaitExpressionAsYield node)) (\<lambda>parenthesize.
       let yieldExpr = createYieldExpression None e
       in if parenthesize then ret [createParenthesizedExpression yieldExpr]
          else ret [yieldExpr]))"


subsection \<open>Traversal controller\<close>

definition transformNodeWorker :: "Env \<Rightarrow> visitor \<Rightarrow> visitor \<Rightarrow> node \<Rightarrow> node list transform" where
  "transformNodeWorker env visit visitElement node =
     (if Ambient \<in> flags node then ret []
      else if kind node \<in> set [PublicKeyword, PrivateKeyword, ProtectedKeyword, AbstractKeyword,
                AsyncKeyword, ConstKeyword, DeclareKeyword] then ret []
      else if kind node \<in> set [ArrayType, TupleType, TypeLiteral, TypePredicate, TypeParameter,
                AnyKeyword, BooleanKeyword, StringKeyword, NumberKeyword, VoidKeyword,
                ConstructorType, FunctionType, TypeQuery, TypeReference, UnionType,
                IntersectionType] then ret []
      else if kind node = IndexSignature then ret []
      else if kind node = Decorator then ret []
      else if kind node = InterfaceDeclaration \<or> kind node = TypeAliasDeclaration then ret []
      else if kind node = PropertyDeclaration then ret []
      else if kind node = Constructor then ret []
      else if kind node = ClassDeclaration then transformClassDeclaration env visit node
      else if kind node = ClassExpression then transformClassExpression env visit node
      else if kind node = HeritageClause then transformHeritageClause visit node
      else if kind node = ExpressionWithTypeArguments
        then transformExpressionWithTypeArguments visit node
      else if kind node = MethodDeclaration then transformMethodDeclaration env visit node
      else if kind node = GetAccessor then transformGetAccessor env visit node
      else if kind node = SetAccessor then transformSetAccessor env visit node
      else if kind node = FunctionDeclaration then transformFunctionDeclaration env visit node
      else if kind node = FunctionExpression then transformFunctionExpression env visit node
      else if kind node = ArrowFunction then transformArrowFunction env visit node
      else if kind node = Parameter then transformParameter visit node
      else if kind node = TypeAssertionExpression then ret (optList (expression node))
      else if kind node = AsExpression then ret (optList (expression node))
      else if kind node = EnumDeclaration then transformEnumDeclaration env visit node
      else if kind node = AwaitExpression then transformAwaitExpression visit node
      else if kind node = VariableStatement then transformVariableStatement visit node
      else if kind node = ModuleDeclaration
        then transformModuleDeclaration env visit visitElement node
      else accept visit node)"

text \<open>
  \<open>transformNodeBody\<close> is the body of \<^verbatim>\<open>transformNode\<close> (lines 36-54) and
  \<open>transformModuleElementBody\<close> the body of \<^verbatim>\<open>transformModuleElement\<close> (lines 56-67), with
  the recursive references as parameters.  The call \<^verbatim>\<open>transformNode(node, write)\<close> of line 65
  is on the same node, so it is the body again.
\<close>

definition transformNodeBody :: "Env \<Rightarrow> visitor \<Rightarrow> visitor \<Rightarrow> node option \<Rightarrow> node list transform" where
  "transformNodeBody env visit visitElement n =
     (case n of
        None \<Rightarrow> ret []
      | Some node \<Rightarrow>
          if ThisNodeNeedsTransformToES6 \<in> transformFlags node
            then transformNodeWorker env visit visitElement node
          else if SubtreeNeedsTransformToES6 \<in> transformFlags node
            then accept visit node
          else ret [node])"

definition transformModuleElementBody ::
  "Env \<Rightarrow> visitor \<Rightarrow> visitor \<Rightarrow> node option \<Rightarrow> node list transform" where
  "transformModuleElementBody env visit visitElement n =
     (case n of
        None \<Rightarrow> ret []
      | Some node \<Rightarrow>
          if Export \<in> flags node then transformNodeWorker env visit visitElement node
          else transformNodeBody env visit visitElement (Some node))"

text \<open>
  The recursion of the transform follows the tree, which is finite.  It is tied here by a
  bound on the depth of the descent: \<open>transformNode env d\<close> lowers a node whose rewriting
  descends at most \<open>d\<close> levels, and answers \<open>OutOfFuel\<close> below that.
\<close>

fun transformNode :: "Env \<Rightarrow> nat \<Rightarrow> node option \<Rightarrow> node list transform"
and transformModuleElement :: "Env \<Rightarrow> nat \<Rightarrow> node option \<Rightarrow> node list transform" where
  "transformNode env 0 n =
     transformNodeBody env (\<lambda>_. outOfFuel) (\<lambda>_. outOfFuel) n"
| "transformNode env (Suc d) n =
     transformNodeBody env (\<lambda>m. transformNode env d (Some m))
       (\<lambda>m. transformModuleElement env d (Some m)) n"
| "transformModuleElement env 0 n =
     transformModuleElementBody env (\<lambda>_. outOfFuel) (\<lambda>_. outOfFuel) n"
| "transformModuleElement env (Suc d) n =
     transformModuleElementBody env (\<lambda>m. transformNode env d (Some m))
       (\<lambda>m. transformModuleElement env d (Some m)) n"



section \<open>Example inputs\<close>

text \<open>
  Modelled from the spec: the helper functions of the compiler's utilities are not under
  \<^verbatim>\<open>src/\<close>.  The examples run the transform in an environment that answers as the spec
  describes the consumed interfaces: a node is decorated when it carries a decorator list
  (a method or accessor only when it has a body); a member can be decorated when it is a
  field, or a method or accessor with a body; the accessors of a get/set pair are the
  accessors of the class with the same name and the same static flag, the first-declared
  one first; the member prefix is the class name for a static member and
  \<^verbatim>\<open>name.prototype\<close> otherwise.  A namespace is instantiated when it contains a
  runtime-meaningful member: a statement other than an interface, a type alias, a
  non-exported import, a namespace that is itself not instantiated and, unless constant
  enums are preserved, a constant enum.  No member has a resolved constant, and no option
  is set.
\<close>

datatype ModuleInstanceState = NonInstantiated | Instantiated | ConstEnumOnly

function exampleGetModuleInstanceState :: "node \<Rightarrow> ModuleInstanceState" where
  "exampleGetModuleInstanceState n =
     (if kind n = InterfaceDeclaration \<or> kind n = TypeAliasDeclaration then NonInstantiated
      else if kind n = EnumDeclaration \<and> isConst n then ConstEnumOnly
      else if kind n \<in> set [''ImportDeclaration'', ImportEqualsDeclaration] \<and> Export \<notin> flags n
        then NonInstantiated
      else if kind n = ModuleBlock then
        (let states = map exampleGetModuleInstanceState (statements n)
         in if Instantiated \<in> set states then Instantiated
            else if ConstEnumOnly \<in> set states then ConstEnumOnly
            else NonInstantiated)
      else if kind n = ModuleDeclaration then
        (case body n of
           None \<Rightarrow> NonInstantiated
         | Some b \<Rightarrow> exampleGetModuleInstanceState b)
      else Instantiated)"
  by pat_completeness auto
termination
  by (relation "measure size")
     (auto simp: statements_def body_def dest: arrayOf_size getNode_size)

declare exampleGetModuleInstanceState.simps [simp del]

definition exampleIsInstantiatedModule :: "node \<Rightarrow> bool \<Rightarrow> bool" where
  "exampleIsInstantiatedModule n preserve =
     (exampleGetModuleInstanceState n = Instantiated
      \<or> (preserve \<and> exampleGetModuleInstanceState n = ConstEnumOnly))"

definition exampleNodeIsDecorated :: "node \<Rightarrow> bool" where
  "exampleNodeIsDecorated n =
     (if kind n \<in> set [ClassDeclaration, PropertyDeclaration, Parameter] then decorators n \<noteq> None
      else if kind n \<in> set [GetAccessor, SetAccessor, MethodDeclaration]
        then body n \<noteq> None \<and> decorators n \<noteq> None
      else False)"

definition exampleNodeCanBeDecorated :: "node \<Rightarrow> bool" where
  "exampleNodeCanBeDecorated n =
     (kind n = PropertyDeclaration
      \<or> (kind n \<in> set [GetAccessor, SetAccessor, MethodDeclaration] \<and> body n \<noteq> None))"

definition exampleNodeOrChildIsDecorated :: "node \<Rightarrow> bool" where
  "exampleNodeOrChildIsDecorated n =
     (exampleNodeIsDecorated n
      \<or> (kind n \<in> set [MethodDeclaration, SetAccessor]
          \<and> list_ex exampleNodeIsDecorated (parameters n)))"

definition exampleGetAllAccessorDeclarations :: "node list \<Rightarrow> node \<Rightarrow> AllAccessorDeclarations" where
  "exampleGetAllAccessorDeclarations declarations accessor =
     (let pair = filter (\<lambda>member. isAccessor member
                           \<and> (Static \<in> flags member) = (Static \<in> flags accessor)
                           \<and> map_option nodeText (name member) = map_option nodeText (name accessor))
                   declarations
      in \<lparr> firstAccessor = (case pair of [] \<Rightarrow> accessor | first # _ \<Rightarrow> first),
           secondAccessor = (case pair of _ # second # _ \<Rightarrow> Some second | _ \<Rightarrow> None),
           getAccessor = find (\<lambda>member. kind member = GetAccessor) pair,
           setAccessor = find (\<lambda>member. kind member = SetAccessor) pair \<rparr>)"

definition exampleGetClassMemberPrefix :: "node \<Rightarrow> node \<Rightarrow> node" where
  "exampleGetClassMemberPrefix node member =
     (let className = (case name node of Some n \<Rightarrow> n | None \<Rightarrow> createIdentifier ''default_1'')
      in if Static \<in> flags member then className
         else createPropertyAccessExpression2 (Some className) (Some (createIdentifier ''prototype'')))"

definition exampleEnv :: Env where
  "exampleEnv =
     \<lparr> nodeIsDecorated = exampleNodeIsDecorated,
       nodeCanBeDecorated = exampleNodeCanBeDecorated,
       nodeOrChildIsDecorated = exampleNodeOrChildIsDecorated,
       getAllAccessorDeclarations = exampleGetAllAccessorDeclarations,
       getClassMemberPrefix = exampleGetClassMemberPrefix,
       isAsyncFunctionLike = (\<lambda>n. Async \<in> flags n),
       getEntityNameFromTypeNode = (\<lambda>t. None),
       getConstantValue = (\<lambda>n. None),
       getNodeCheckFlags = (\<lambda>n. {}),
       isInstantiatedModule = exampleIsInstantiatedModule,
       getCombinedNodeFlags = (\<lambda>stack. case stack of [] \<Rightarrow> {} | n # _ \<Rightarrow> flags n),
       preserveConstEnums = False,
       isolatedModules = False,
       emitDecoratorMetadata = False,
       scriptTarget = Some ES6,
       generatedNameFor =
         (\<lambda>n. (case name n of Some m \<Rightarrow> nodeText m | None \<Rightarrow> ''default'') @ ''_1''),
       freshLocal = (\<lambda>i. ''_'' @ showNat i) \<rparr>"

text \<open>Nodes of an input tree: an identifier, a numeric literal, a call statement.\<close>

definition ident :: "nat \<Rightarrow> string \<Rightarrow> node" where
  "ident i s = Node Identifier {} {} i s None []"

definition numeral :: "nat \<Rightarrow> string \<Rightarrow> node" where
  "numeral i s = Node NumericLiteral {} {} i s None []"

definition callStatement :: "nat \<Rightarrow> node \<Rightarrow> node" where
  "callStatement i callee =
     Node ExpressionStatement {} {} i [] None
       [(P_expression, One (Node CallExpression {} {} (Suc i) [] None
           [(P_expression, One callee), (P_arguments, Many [])]))]"

definition sourceFile :: node where
  "sourceFile = Node SourceFile {} {} 100 [] None []"

text \<open>
  The class of the spec's scenario,
  \<^verbatim>\<open>class C extends B { x = 1; constructor(public y) { super(); foo(); } }\<close>.
\<close>

definition scenarioBase :: node where
  "scenarioBase = Node ExpressionWithTypeArguments {} {} 4 [] None [(P_expression, One (ident 5 ''B''))]"

definition scenarioField :: node where
  "scenarioField =
     Node PropertyDeclaration {} {ThisNodeNeedsTransformToES6} 6 [] None
       [(P_name, One (ident 7 ''x'')), (P_initializer, One (numeral 8 ''1''))]"

definition scenarioParameter :: node where
  "scenarioParameter =
     Node Parameter {Public} {ThisNodeNeedsTransformToES6} 10 [] None [(P_name, One (ident 11 ''y''))]"

definition scenarioConstructor :: node where
  "scenarioConstructor =
     Node Constructor {} {ThisNodeNeedsTransformToES6, SubtreeNeedsTransformToES6} 9 [] None
       [(P_parameters, Many [scenarioParameter]),
        (P_body, One (Node Block {} {} 12 [] None
           [(P_statements, Many
              [callStatement 13 (Node SuperKeyword {} {} 15 [] None []),
               callStatement 16 (ident 18 ''foo'')])]))]"

definition scenarioClass :: node where
  "scenarioClass =
     Node ClassDeclaration {} {ThisNodeNeedsTransformToES6, SubtreeNeedsTransformToES6} 1 [] None
       [(P_name, One (ident 2 ''C'')),
        (P_heritageClauses, Many
           [Node HeritageClause {} {} 3 [] (Some ExtendsKeyword) [(P_types, Many [scenarioBase])]]),
        (P_members, Many [scenarioField, scenarioConstructor])]"

text \<open>
  A variable statement exported from a namespace, \<^verbatim>\<open>namespace N { export var x = 1; }\<close>,
  and one whose target is a destructuring pattern, \<^verbatim>\<open>export var {a} = o;\<close>.  The state is
  the one in which the statement is lowered: the statement, the module block and the
  namespace are on the node stack.
\<close>

definition exportedVariable :: "node \<Rightarrow> node \<Rightarrow> node" where
  "exportedVariable bindingName init =
     Node VariableStatement {Export} {} 30 [] None
       [(P_declarationList, One (Node VariableDeclarationList {} {} 31 [] None
           [(P_declarations, Many
               [Node VariableDeclaration {} {} 32 [] None
                  [(P_name, One bindingName), (P_initializer, One init)]])]))]"

definition objectPattern :: node where
  "objectPattern =
     Node ObjectBindingPattern {} {} 33 [] None
       [(P_elements, Many [Node ''BindingElement'' {} {} 34 [] None [(P_name, One (ident 35 ''a''))]])]"

definition namespaceOf :: "node \<Rightarrow> node" where
  "namespaceOf stmt =
     Node ModuleDeclaration {} {ThisNodeNeedsTransformToES6, SubtreeNeedsTransformToES6} 20 [] None
       [(P_name, One (ident 21 ''N'')),
        (P_body, One (Node ModuleBlock {} {} 22 [] None [(P_statements, Many [stmt])]))]"

definition insideNamespace :: "node \<Rightarrow> TransformState" where
  "insideNamespace stmt = initialState [stmt, namespaceOf stmt, sourceFile]"



text \<open>A class with a base class and nothing else, \<^verbatim>\<open>class D extends B {}\<close>.\<close>

definition derivedClass :: node where
  "derivedClass =
     Node ClassDeclaration {} {ThisNodeNeedsTransformToES6} 40 [] None
       [(P_name, One (ident 41 ''D'')),
        (P_heritageClauses, Many
           [Node HeritageClause {} {} 42 [] (Some ExtendsKeyword) [(P_types, Many [scenarioBase])]]),
        (P_members, Many [])]"

text \<open>
  Nodes for each branch of the traversal controller: the expression \<^verbatim>\<open>x as T\<close>, the
  interface \<^verbatim>\<open>interface I {}\<close>, the ambient declaration \<^verbatim>\<open>declare var g;\<close>, the export
  assignment \<^verbatim>\<open>export = x as T;\<close> (a kind without a lowering rule of its own) and the
  statement \<^verbatim>\<open>x as T;\<close>, which needs no rewriting itself.
\<close>

definition asExpression :: node where
  "asExpression =
     Node AsExpression {} {ThisNodeNeedsTransformToES6} 130 [] None
       [(P_expression, One (ident 131 ''x'')),
        (P_type, One (Node TypeReference {} {ThisNodeNeedsTransformToES6} 132 [] None
                        [(P_typeName, One (ident 133 ''T''))]))]"

definition interfaceDeclaration :: node where
  "interfaceDeclaration =
     Node InterfaceDeclaration {} {ThisNodeNeedsTransformToES6} 134 [] None
       [(P_name, One (ident 135 ''I'')), (P_members, Many [])]"

definition ambientVariable :: node where
  "ambientVariable =
     Node VariableStatement {Ambient} {ThisNodeNeedsTransformToES6} 136 [] None
       [(P_declarationList, One (Node VariableDeclarationList {} {} 137 [] None
           [(P_declarations, Many
               [Node VariableDeclaration {} {} 138 [] None [(P_name, One (ident 139 ''g''))]])]))]"

definition exportAssignment :: node where
  "exportAssignment =
     Node ''ExportAssignment'' {} {ThisNodeNeedsTransformToES6, SubtreeNeedsTransformToES6} 140 [] None
       [(P_expression, One asExpression)]"

definition castStatement :: node where
  "castStatement =
     Node ExpressionStatement {} {SubtreeNeedsTransformToES6} 141 [] None
       [(P_expression, One asExpression)]"

text \<open>
  \<^verbatim>\<open>await a + b\<close>: the await expression is the left operand of the binary expression.
\<close>

definition awaitOperand :: node where
  "awaitOperand =
     Node AwaitExpression {} {ThisNodeNeedsTransformToES6} 50 [] None [(P_expression, One (ident 51 ''a''))]"

definition awaitSum :: node where
  "awaitSum =
     Node BinaryExpression {} {SubtreeNeedsTransformToES6} 52 [] None
       [(P_left, One awaitOperand),
        (P_operatorToken, One (Node PlusToken {} {} 53 [] None [])),
        (P_right, One (ident 54 ''b''))]"

text \<open>
  \<^verbatim>\<open>b **= await a\<close>: the await expression is the right operand of an assignment operator.
\<close>

definition awaitInAssignment :: node where
  "awaitInAssignment =
     Node AwaitExpression {} {ThisNodeNeedsTransformToES6} 55 [] None [(P_expression, One (ident 56 ''a''))]"

definition exponentAssignment :: node where
  "exponentAssignment =
     Node BinaryExpression {} {SubtreeNeedsTransformToES6} 57 [] None
       [(P_left, One (ident 58 ''b'')),
        (P_operatorToken, One (Node AsteriskAsteriskEqualsToken {} {} 59 [] None [])),
        (P_right, One awaitInAssignment)]"

text \<open>
  The position the spec names for an await expression that is parenthesized: the right
  operand of a non-assignment binary operator, or the condition of a conditional
  expression.
\<close>

definition rightOperandOrCondition :: "node \<Rightarrow> node option \<Rightarrow> bool" where
  "rightOperandOrCondition node parent =
     (case parent of
        None \<Rightarrow> False
      | Some p \<Rightarrow>
          (kind p = BinaryExpression
           \<and> (case getNode p P_operatorToken of
                 None \<Rightarrow> False
               | Some operatorToken \<Rightarrow> \<not> isAssignmentOperator (kind operatorToken))
           \<and> (case getNode p P_right of None \<Rightarrow> False | Some r \<Rightarrow> sameNode r node))
          \<or> (kind p = ConditionalExpression
              \<and> (case getNode p P_condition of None \<Rightarrow> False | Some c \<Rightarrow> sameNode c node)))"

text \<open>
  The scope context: the values of the five scope-context variables.  A computation keeps
  the scope context when, whenever it returns, the five variables hold the values they
  held when it started.
\<close>


definition scopeContext ::
  "TransformState \<Rightarrow> node option \<times> node option \<times> node list option \<times> node list option \<times> node option" where
  "scopeContext st =
     (currentBaseTypeNode st, currentConstructor st, currentParametersWithPropertyAssignments st,
      currentInstancePropertyAssignments st, currentEnumLocalName st)"

definition keepsScope :: "'a transform \<Rightarrow> bool" where
  "keepsScope m = (\<forall>st x st'. m st = Inr (x, st') \<longrightarrow> scopeContext st' = scopeContext st)"


text \<open>
  The enum of the spec's scenario, \<^verbatim>\<open>enum E { A, B = A }\<close>, in an environment whose
  Resolver gives every enum member the constant 0 and whose options preserve constant
  enums (so that the enum is emitted).
\<close>

definition scenarioMemberA :: node where
  "scenarioMemberA = Node EnumMember {} {} 61 [] None [(P_name, One (ident 62 ''A''))]"

definition scenarioMemberB :: node where
  "scenarioMemberB =
     Node EnumMember {} {} 63 [] None
       [(P_name, One (ident 64 ''B'')), (P_initializer, One (ident 65 ''A''))]"

definition scenarioEnum :: node where
  "scenarioEnum =
     Node EnumDeclaration {} {ThisNodeNeedsTransformToES6} 60 [] None
       [(P_name, One (ident 66 ''E'')), (P_members, Many [scenarioMemberA, scenarioMemberB])]"

text \<open>
  The Resolver's constants in the examples: a member whose initializer is a numeric
  literal has the value of the literal, and the members of \<^verbatim>\<open>enum E { A, B = A }\<close> are
  both 0.
\<close>

definition exampleGetConstantValue :: "node \<Rightarrow> jsNumber option" where
  "exampleGetConstantValue member =
     (if kind member = EnumMember then
        (case initializer member of
           None \<Rightarrow> Some (numberOfInt 0)
         | Some i \<Rightarrow> if kind i = NumericLiteral then Some (nodeText i) else Some (numberOfInt 0))
      else None)"

definition enumEnv :: Env where
  "enumEnv = exampleEnv
     \<lparr> getConstantValue := exampleGetConstantValue,
       preserveConstEnums := True \<rparr>"

text \<open>A state in which an enclosing enum scope has set its local name.\<close>

definition insideEnumScope :: "node list \<Rightarrow> TransformState" where
  "insideEnumScope stack = (initialState stack)\<lparr>currentEnumLocalName := Some (ident 67 ''Outer_1'')\<rparr>"



text \<open>
  The members of one group (instance or static) that pass the guard of
  \<^verbatim>\<open>transformDecoratorsOfMembers\<close> (lines 949-957), in declaration order.
\<close>

definition membersToDecorate :: "Env \<Rightarrow> node \<Rightarrow> bool \<Rightarrow> node list" where
  "membersToDecorate env node isStatic =
     filter (\<lambda>member. isStatic = (Static \<in> flags member)
                \<and> nodeCanBeDecorated env member \<and> nodeOrChildIsDecorated env member)
       (members node)"

text \<open>
  A decorate-call statement: an expression statement that is a call of \<^verbatim>\<open>__decorate\<close>,
  or a call (of \<^verbatim>\<open>Object.defineProperty\<close>) whose third argument is a call of
  \<^verbatim>\<open>__decorate\<close>.
\<close>

definition isDecorateCall :: "node \<Rightarrow> bool" where
  "isDecorateCall e =
     (kind e = CallExpression
      \<and> (case expression e of
            None \<Rightarrow> False
          | Some callee \<Rightarrow> kind callee = Identifier \<and> nodeText callee = ''__decorate''))"

definition isDecorateCallStatement :: "node \<Rightarrow> bool" where
  "isDecorateCallStatement s =
     (kind s = ExpressionStatement
      \<and> (case expression s of
            None \<Rightarrow> False
          | Some e \<Rightarrow>
              isDecorateCall e
              \<or> (kind e = CallExpression
                  \<and> (case getNodes e P_arguments of
                        Some [prefix, memberName, descriptor] \<Rightarrow> isDecorateCall descriptor
                      | _ \<Rightarrow> False))))"

text \<open>
  A decorated class,
  \<^verbatim>\<open>@dec class K { @m2 static q; @m1 p; constructor(@pd a) {} }\<close>.
\<close>

definition decorator :: "nat \<Rightarrow> string \<Rightarrow> node" where
  "decorator i s =
     Node Decorator {} {ThisNodeNeedsTransformToES6} i [] None [(P_expression, One (ident (Suc i) s))]"

definition decoratedClass :: node where
  "decoratedClass =
     Node ClassDeclaration {} {ThisNodeNeedsTransformToES6, SubtreeNeedsTransformToES6} 70 [] None
       [(P_decorators, Many [decorator 71 ''dec'']),
        (P_name, One (ident 73 ''K'')),
        (P_members, Many
           [Node PropertyDeclaration {Static} {ThisNodeNeedsTransformToES6} 74 [] None
              [(P_decorators, Many [decorator 75 ''m2'']), (P_name, One (ident 77 ''q''))],
            Node PropertyDeclaration {} {ThisNodeNeedsTransformToES6} 78 [] None
              [(P_decorators, Many [decorator 79 ''m1'']), (P_name, One (ident 81 ''p''))],
            Node Constructor {} {ThisNodeNeedsTransformToES6} 82 [] None
              [(P_parameters, Many
                  [Node Parameter {} {ThisNodeNeedsTransformToES6} 83 [] None
                     [(P_decorators, Many [decorator 84 ''pd'']), (P_name, One (ident 86 ''a''))]]),
               (P_body, One (Node Block {} {} 87 [] None [(P_statements, Many [])]))]])]"


text \<open>
  A get/set accessor pair of which only the second-declared accessor carries a decorator,
  \<^verbatim>\<open>class P { get x() {} @d2 set x(v) {} }\<close>.
\<close>

definition emptyBlock :: "nat \<Rightarrow> node" where
  "emptyBlock i = Node Block {} {} i [] None [(P_statements, Many [])]"

definition getterX :: node where
  "getterX =
     Node GetAccessor {} {} 91 [] None
       [(P_name, One (ident 94 ''x'')), (P_parameters, Many []), (P_body, One (emptyBlock 95))]"

definition setterX :: node where
  "setterX =
     Node SetAccessor {} {ThisNodeNeedsTransformToES6} 96 [] None
       [(P_decorators, Many [decorator 97 ''d2'']), (P_name, One (ident 99 ''x'')),
        (P_parameters, Many [Node Parameter {} {} 101 [] None [(P_name, One (ident 102 ''v''))]]),
        (P_body, One (emptyBlock 103))]"

definition pairClass :: node where
  "pairClass =
     Node ClassDeclaration {} {ThisNodeNeedsTransformToES6, SubtreeNeedsTransformToES6} 90 [] None
       [(P_name, One (ident 104 ''P'')), (P_members, Many [getterX, setterX])]"

subsection \<open>Running the emitted statements\<close>







































section \<open>Properties\<close>

subsection \<open>Traversal controller\<close>

lemma if_same_branch: "(if c then x else if c' then x else y) = (if c \<or> c' then x else y)"
  by simp

text \<open>
  C4.  The traversal controller decides on the node's transform flags.  An absent node
  yields nothing.  A node whose own flag is set is dispatched on its kind (lines 75-238):
  an ambient declaration, a modifier, a type node, an index signature, a decorator, an
  interface, a type alias, a property declaration and a constructor are elided; a type
  assertion and an \<^verbatim>\<open>as\<close> expression give their operand; a class declaration, a class
  expression, a heritage clause, an expression with type arguments, a method, an
  accessor, a function declaration, a function expression, an arrow function, a
  parameter, an enum, an await expression, a variable statement and a namespace go to
  the lowering rule of that name; any other kind goes to the generic descent.  A node
  with only the subtree flag set goes to the generic descent \<open>accept\<close>: the node written
  has the kind, the flags, the identity, the text and the token of the input, and its
  children are those of the input, each passed through the controller.  A node with
  neither flag is written as it is, in the same state: no node is made.  (\<open>accept\<close> is
  part of the framework, modelled from the spec.)
\<close>

theorem transformNode_dispatch:
  "transformNode env d None st = Inr ([], st)
   \<and> (ThisNodeNeedsTransformToES6 \<in> transformFlags node \<and> Ambient \<in> flags node \<longrightarrow>
        transformNode env (Suc d) (Some node) st = Inr ([], st))
   \<and> (ThisNodeNeedsTransformToES6 \<in> transformFlags node \<and> Ambient \<notin> flags node \<longrightarrow>
        (kind node \<in> set [PublicKeyword, PrivateKeyword, ProtectedKeyword, AbstractKeyword,
            AsyncKeyword, ConstKeyword, DeclareKeyword, ArrayType, TupleType, TypeLiteral,
            TypePredicate, TypeParameter, AnyKeyword, BooleanKeyword, StringKeyword,
            NumberKeyword, VoidKeyword, ConstructorType, FunctionType, TypeQuery, TypeReference,
            UnionType, IntersectionType, IndexSignature, Decorator, InterfaceDeclaration,
            TypeAliasDeclaration, PropertyDeclaration, Constructor] \<longrightarrow>
           transformNode env (Suc d) (Some node) st = Inr ([], st))
        \<and> (kind node = ClassDeclaration \<longrightarrow>
             transformNode env (Suc d) (Some node) st =
               transformClassDeclaration env (\<lambda>m. transformNode env d (Some m)) node st)
        \<and> (kind node = ClassExpression \<longrightarrow>
             transformNode env (Suc d) (Some node) st =
               transformClassExpression env (\<lambda>m. transformNode env d (Some m)) node st)
        \<and> (kind node = HeritageClause \<longrightarrow>
             transformNode env (Suc d) (Some node) st =
               transformHeritageClause (\<lambda>m. transformNode env d (Some m)) node st)
        \<and> (kind node = ExpressionWithTypeArguments \<longrightarrow>
             transformNode env (Suc d) (Some node) st =
               transformExpressionWithTypeArguments (\<lambda>m. transformNode env d (Some m)) node st)
        \<and> (kind node = MethodDeclaration \<longrightarrow>
             transformNode env (Suc d) (Some node) st =
               transformMethodDeclaration env (\<lambda>m. transformNode env d (Some m)) node st)
        \<and> (kind node = GetAccessor \<longrightarrow>
             transformNode env (Suc d) (Some node) st =
               transformGetAccessor env (\<lambda>m. transformNode env d (Some m)) node st)
        \<and> (kind node = SetAccessor \<longrightarrow>
             transformNode env (Suc d) (Some node) st =
               transformSetAccessor env (\<lambda>m. transformNode env d (Some m)) node st)
        \<and> (kind node = FunctionDeclaration \<longrightarrow>
             transformNode env (Suc d) (Some node) st =
               transformFunctionDeclaration env (\<lambda>m. transformNode env d (Some m)) node st)
        \<and> (kind node = FunctionExpression \<longrightarrow>
             transformNode env (Suc d) (Some node) st =
               transformFunctionExpression env (\<lambda>m. transformNode env d (Some m)) node st)
        \<and> (kind node = ArrowFunction \<longrightarrow>
             transformNode env (Suc d) (Some node) st =
               transformArrowFunction env (\<lambda>m. transformNode env d (Some m)) node st)
        \<and> (kind node = Parameter \<longrightarrow>
             transformNode env (Suc d) (Some node) st =
               transformParameter (\<lambda>m. transformNode env d (Some m)) node st)
        \<and> (kind node = TypeAssertionExpression \<or> kind node = AsExpression \<longrightarrow>
             transformNode env (Suc d) (Some node) st = Inr (optList (expression node), st))
        \<and> (kind node = EnumDeclaration \<longrightarrow>
             transformNode env (Suc d) (Some node) st =
               transformEnumDeclaration env (\<lambda>m. transformNode env d (Some m)) node st)
        \<and> (kind node = AwaitExpression \<longrightarrow>
             transformNode env (Suc d) (Some node) st =
               transformAwaitExpression (\<lambda>m. transformNode env d (Some m)) node st)
        \<and> (kind node = VariableStatement \<longrightarrow>
             transformNode env (Suc d) (Some node) st =
               transformVariableStatement (\<lambda>m. transformNode env d (Some m)) node st)
        \<and> (kind node = ModuleDeclaration \<longrightarrow>
             transformNode env (Suc d) (Some node) st =
               transformModuleDeclaration env (\<lambda>m. transformNode env d (Some m))
                 (\<lambda>m. transformModuleElement env d (Some m)) node st)
        \<and> (kind node \<notin> set [PublicKeyword, PrivateKeyword, ProtectedKeyword, AbstractKeyword,
            AsyncKeyword, ConstKeyword, DeclareKeyword, ArrayType, TupleType, TypeLiteral,
            TypePredicate, TypeParameter, AnyKeyword, BooleanKeyword, StringKeyword,
            NumberKeyword, VoidKeyword, ConstructorType, FunctionType, TypeQuery, TypeReference,
            UnionType, IntersectionType, IndexSignature, Decorator, InterfaceDeclaration,
            TypeAliasDeclaration, PropertyDeclaration, Constructor, ClassDeclaration,
            ClassExpression, HeritageClause, ExpressionWithTypeArguments, MethodDeclaration,
            GetAccessor, SetAccessor, FunctionDeclaration, FunctionExpression, ArrowFunction,
            Parameter, TypeAssertionExpression, AsExpression, EnumDeclaration, AwaitExpression,
            VariableStatement, ModuleDeclaration] \<longrightarrow>
             transformNode env (Suc d) (Some node) st =
               accept (\<lambda>m. transformNode env d (Some m)) node st))
   \<and> (ThisNodeNeedsTransformToES6 \<notin> transformFlags node
        \<and> SubtreeNeedsTransformToES6 \<in> transformFlags node \<longrightarrow>
        transformNode env (Suc d) (Some node) st = accept (\<lambda>m. transformNode env d (Some m)) node st
        \<and> (\<forall>outs st'. transformNode env (Suc d) (Some node) st = Inr (outs, st') \<longrightarrow>
              (\<exists>cs. outs = [Node (kind node) (flags node) (transformFlags node) (nodeId node)
                               (nodeText node) (token node) cs]
                    \<and> forEach (children node) (acceptChild (\<lambda>m. transformNode env d (Some m))) st
                        = Inr (cs, st'))))
   \<and> (ThisNodeNeedsTransformToES6 \<notin> transformFlags node
        \<and> SubtreeNeedsTransformToES6 \<notin> transformFlags node \<longrightarrow>
        transformNode env d (Some node) st = Inr ([node], st))"
proof -
  have absent: "transformNode env d None st = Inr ([], st)"
    by (cases d) (simp_all add: transformNodeBody_def ret_def)
  have flagged: "transformNode env (Suc d) (Some node) st =
      transformNodeWorker env (\<lambda>m. transformNode env d (Some m))
        (\<lambda>m. transformModuleElement env d (Some m)) node st"
    if "ThisNodeNeedsTransformToES6 \<in> transformFlags node"
    using that by (simp add: transformNodeBody_def)
  have subtree: "transformNode env (Suc d) (Some node) st
                 = accept (\<lambda>m. transformNode env d (Some m)) node st"
    if "ThisNodeNeedsTransformToES6 \<notin> transformFlags node"
      and "SubtreeNeedsTransformToES6 \<in> transformFlags node"
    using that by (simp add: transformNodeBody_def)
  have rebuilt: "\<exists>cs. outs = [Node (kind node) (flags node) (transformFlags node) (nodeId node)
                               (nodeText node) (token node) cs]
                    \<and> forEach (children node) (acceptChild visit) st = Inr (cs, st')"
    if "accept visit node st = Inr (outs, st')" for visit outs st'
    using that
    by (auto simp: accept_def andThen_def ret_def updateChildren_def split: sum.splits)
  have unflagged: "transformNode env d (Some node) st = Inr ([node], st)"
    if "ThisNodeNeedsTransformToES6 \<notin> transformFlags node"
      and "SubtreeNeedsTransformToES6 \<notin> transformFlags node"
    using that by (cases d) (simp_all add: transformNodeBody_def ret_def)
  show ?thesis
    apply (intro conjI impI allI)
    subgoal by (rule absent)
    subgoal by (simp add: transformNodeBody_def transformNodeWorker_def ret_def)
    subgoal by (simp add: transformNodeBody_def transformNodeWorker_def ret_def if_same_branch)
    subgoal by (simp add: transformNodeBody_def transformNodeWorker_def)
    subgoal by (simp add: transformNodeBody_def transformNodeWorker_def)
    subgoal by (simp add: transformNodeBody_def transformNodeWorker_def)
    subgoal by (simp add: transformNodeBody_def transformNodeWorker_def)
    subgoal by (simp add: transformNodeBody_def transformNodeWorker_def)
    subgoal by (simp add: transformNodeBody_def transformNodeWorker_def)
    subgoal by (simp add: transformNodeBody_def transformNodeWorker_def)
    subgoal by (simp add: transformNodeBody_def transformNodeWorker_def)
    subgoal by (simp add: transformNodeBody_def transformNodeWorker_def)
    subgoal by (simp add: transformNodeBody_def transformNodeWorker_def)
    subgoal by (simp add: transformNodeBody_def transformNodeWorker_def)
    subgoal by (auto simp: transformNodeBody_def transformNodeWorker_def ret_def)
    subgoal by (simp add: transformNodeBody_def transformNodeWorker_def)
    subgoal by (simp add: transformNodeBody_def transformNodeWorker_def)
    subgoal by (simp add: transformNodeBody_def transformNodeWorker_def)
    subgoal by (simp add: transformNodeBody_def transformNodeWorker_def)
    subgoal by (simp add: transformNodeBody_def transformNodeWorker_def)
    subgoal by (simp add: transformNodeBody_def)
    subgoal by (rule rebuilt) (simp add: transformNodeBody_def)
    subgoal by (simp add: unflagged)
    done
qed

theorem transformNode_dispatch_witness:
  "transformNode exampleEnv 0 None (initialState []) = Inr ([], initialState [])
   \<and> transformNode exampleEnv 4 (Some ambientVariable) (initialState [ambientVariable, sourceFile])
       = Inr ([], initialState [ambientVariable, sourceFile])
   \<and> transformNode exampleEnv 4 (Some interfaceDeclaration)
         (initialState [interfaceDeclaration, sourceFile])
       = Inr ([], initialState [interfaceDeclaration, sourceFile])
   \<and> transformNode exampleEnv 4 (Some derivedClass) (initialState [derivedClass, sourceFile])
       = Inr ([createClassDeclaration2 (Some (ident 41 ''D'')) (Some scenarioBase) [] {}],
              initialState [derivedClass, sourceFile])
   \<and> transformNode exampleEnv 4 (Some asExpression) (initialState [asExpression, sourceFile])
       = Inr ([ident 131 ''x''], initialState [asExpression, sourceFile])
   \<and> transformNode exampleEnv 4 (Some awaitOperand) (initialState [awaitOperand, sourceFile])
       = Inr ([createYieldExpression None (Some (ident 51 ''a''))],
              initialState [awaitOperand, sourceFile])
   \<and> transformNode exampleEnv 4 (Some exportAssignment) (initialState [exportAssignment, sourceFile])
       = Inr ([Node ''ExportAssignment'' {}
                 {ThisNodeNeedsTransformToES6, SubtreeNeedsTransformToES6} 140 [] None
                 [(P_expression, One (ident 131 ''x''))]],
              initialState [exportAssignment, sourceFile])
   \<and> transformNode exampleEnv 4 (Some castStatement) (initialState [castStatement, sourceFile])
       = Inr ([Node ExpressionStatement {} {SubtreeNeedsTransformToES6} 141 [] None
                 [(P_expression, One (ident 131 ''x''))]],
              initialState [castStatement, sourceFile])
   \<and> transformNode exampleEnv 0 (Some (ident 5 ''B'')) (initialState [])
       = Inr ([ident 5 ''B''], initialState [])"
proof -
  let ?visit = "\<lambda>m. transformNode exampleEnv 3 (Some m)"
  note dispatch = transformNode_dispatch [where env = exampleEnv]
  have plain: "ThisNodeNeedsTransformToES6 \<notin> transformFlags (ident 5 ''B'')
               \<and> SubtreeNeedsTransformToES6 \<notin> transformFlags (ident 5 ''B'')"
    by (simp add: ident_def)
  note c1 = dispatch [of 0 "initialState []" "ident 5 ''B''", THEN conjunct1]
  note c9 = dispatch [of 0 "initialState []" "ident 5 ''B''", THEN conjunct2, THEN conjunct2,
      THEN conjunct2, THEN conjunct2, THEN mp, OF plain]
  have ambient: "ThisNodeNeedsTransformToES6 \<in> transformFlags ambientVariable
                 \<and> Ambient \<in> flags ambientVariable"
    by (simp add: ambientVariable_def)
  note c2 = dispatch [of 3 "initialState [ambientVariable, sourceFile]" ambientVariable,
      THEN conjunct2, THEN conjunct1, THEN mp, OF ambient]
  have interface: "ThisNodeNeedsTransformToES6 \<in> transformFlags interfaceDeclaration
                   \<and> Ambient \<notin> flags interfaceDeclaration"
    and interfaceKind: "kind interfaceDeclaration \<in> set [PublicKeyword, PrivateKeyword,
            ProtectedKeyword, AbstractKeyword,
            AsyncKeyword, ConstKeyword, DeclareKeyword, ArrayType, TupleType, TypeLiteral,
            TypePredicate, TypeParameter, AnyKeyword, BooleanKeyword, StringKeyword,
            NumberKeyword, VoidKeyword, ConstructorType, FunctionType, TypeQuery, TypeReference,
            UnionType, IntersectionType, IndexSignature, Decorator, InterfaceDeclaration,
            TypeAliasDeclaration, PropertyDeclaration, Constructor]"
    by (simp_all add: interfaceDeclaration_def)
  note c3 = dispatch [of 3 "initialState [interfaceDeclaration, sourceFile]" interfaceDeclaration,
      THEN conjunct2, THEN conjunct2, THEN conjunct1, THEN mp, OF interface,
      THEN conjunct1, THEN mp, OF interfaceKind]
  have derived: "ThisNodeNeedsTransformToES6 \<in> transformFlags derivedClass
                 \<and> Ambient \<notin> flags derivedClass"
    and derivedKind: "kind derivedClass = ClassDeclaration"
    by (simp_all add: derivedClass_def)
  have derivedRule: "transformClassDeclaration exampleEnv ?visit derivedClass
                       (initialState [derivedClass, sourceFile])
       = Inr ([createClassDeclaration2 (Some (ident 41 ''D'')) (Some scenarioBase) [] {}],
              initialState [derivedClass, sourceFile])"
    by code_simp
  from dispatch [of 3 "initialState [derivedClass, sourceFile]" derivedClass,
      THEN conjunct2, THEN conjunct2, THEN conjunct1, THEN mp, OF derived]
  have "kind derivedClass = ClassDeclaration \<longrightarrow>
        transformNode exampleEnv (Suc 3) (Some derivedClass) (initialState [derivedClass, sourceFile])
        = transformClassDeclaration exampleEnv ?visit derivedClass
            (initialState [derivedClass, sourceFile])"
    by (elim conjE) assumption
  from this [THEN mp, OF derivedKind] derivedRule
  have c4: "transformNode exampleEnv (Suc 3) (Some derivedClass)
              (initialState [derivedClass, sourceFile])
       = Inr ([createClassDeclaration2 (Some (ident 41 ''D'')) (Some scenarioBase) [] {}],
              initialState [derivedClass, sourceFile])"
    by (rule trans)
  have cast: "ThisNodeNeedsTransformToES6 \<in> transformFlags asExpression
              \<and> Ambient \<notin> flags asExpression"
    and castKind: "kind asExpression = TypeAssertionExpression \<or> kind asExpression = AsExpression"
    and castOperand: "optList (expression asExpression) = [ident 131 ''x'']"
    by (simp_all add: asExpression_def optList_def expression_def getNode_def)
  from dispatch [of 3 "initialState [asExpression, sourceFile]" asExpression,
      THEN conjunct2, THEN conjunct2, THEN conjunct1, THEN mp, OF cast]
  have "kind asExpression = TypeAssertionExpression \<or> kind asExpression = AsExpression \<longrightarrow>
        transformNode exampleEnv (Suc 3) (Some asExpression) (initialState [asExpression, sourceFile])
        = Inr (optList (expression asExpression), initialState [asExpression, sourceFile])"
    by (elim conjE) assumption
  from this [THEN mp, OF castKind] have c5: "transformNode exampleEnv (Suc 3) (Some asExpression)
                   (initialState [asExpression, sourceFile])
       = Inr ([ident 131 ''x''], initialState [asExpression, sourceFile])"
    by (simp only: castOperand)
  have await: "ThisNodeNeedsTransformToES6 \<in> transformFlags awaitOperand
               \<and> Ambient \<notin> flags awaitOperand"
    and awaitKind: "kind awaitOperand = AwaitExpression"
    by (simp_all add: awaitOperand_def)
  have awaitRule: "transformAwaitExpression ?visit awaitOperand
                     (initialState [awaitOperand, sourceFile])
       = Inr ([createYieldExpression None (Some (ident 51 ''a''))],
              initialState [awaitOperand, sourceFile])"
    by code_simp
  from dispatch [of 3 "initialState [awaitOperand, sourceFile]" awaitOperand,
      THEN conjunct2, THEN conjunct2, THEN conjunct1, THEN mp, OF await]
  have "kind awaitOperand = AwaitExpression \<longrightarrow>
        transformNode exampleEnv (Suc 3) (Some awaitOperand) (initialState [awaitOperand, sourceFile])
        = transformAwaitExpression ?visit awaitOperand (initialState [awaitOperand, sourceFile])"
    by (elim conjE) assumption
  from this [THEN mp, OF awaitKind] awaitRule
  have c6: "transformNode exampleEnv (Suc 3) (Some awaitOperand)
              (initialState [awaitOperand, sourceFile])
       = Inr ([createYieldExpression None (Some (ident 51 ''a''))],
              initialState [awaitOperand, sourceFile])"
    by (rule trans)
  have export: "ThisNodeNeedsTransformToES6 \<in> transformFlags exportAssignment
                \<and> Ambient \<notin> flags exportAssignment"
    and exportKind: "kind exportAssignment \<notin> set [PublicKeyword, PrivateKeyword,
            ProtectedKeyword, AbstractKeyword,
            AsyncKeyword, ConstKeyword, DeclareKeyword, ArrayType, TupleType, TypeLiteral,
            TypePredicate, TypeParameter, AnyKeyword, BooleanKeyword, StringKeyword,
            NumberKeyword, VoidKeyword, ConstructorType, FunctionType, TypeQuery, TypeReference,
            UnionType, IntersectionType, IndexSignature, Decorator, InterfaceDeclaration,
            TypeAliasDeclaration, PropertyDeclaration, Constructor, ClassDeclaration,
            ClassExpression, HeritageClause, ExpressionWithTypeArguments, MethodDeclaration,
            GetAccessor, SetAccessor, FunctionDeclaration, FunctionExpression, ArrowFunction,
            Parameter, TypeAssertionExpression, AsExpression, EnumDeclaration, AwaitExpression,
            VariableStatement, ModuleDeclaration]"
    by (simp_all add: exportAssignment_def)
  have exportRule: "accept ?visit exportAssignment (initialState [exportAssignment, sourceFile])
       = Inr ([Node ''ExportAssignment'' {}
                 {ThisNodeNeedsTransformToES6, SubtreeNeedsTransformToES6} 140 [] None
                 [(P_expression, One (ident 131 ''x''))]],
              initialState [exportAssignment, sourceFile])"
    by code_simp
  from dispatch [of 3 "initialState [exportAssignment, sourceFile]" exportAssignment,
      THEN conjunct2, THEN conjunct2, THEN conjunct1, THEN mp, OF export]
  have "kind exportAssignment \<notin> set [PublicKeyword, PrivateKeyword,
            ProtectedKeyword, AbstractKeyword,
            AsyncKeyword, ConstKeyword, DeclareKeyword, ArrayType, TupleType, TypeLiteral,
            TypePredicate, TypeParameter, AnyKeyword, BooleanKeyword, StringKeyword,
            NumberKeyword, VoidKeyword, ConstructorType, FunctionType, TypeQuery, TypeReference,
            UnionType, IntersectionType, IndexSignature, Decorator, InterfaceDeclaration,
            TypeAliasDeclaration, PropertyDeclaration, Constructor, ClassDeclaration,
            ClassExpression, HeritageClause, ExpressionWithTypeArguments, MethodDeclaration,
            GetAccessor, SetAccessor, FunctionDeclaration, FunctionExpression, ArrowFunction,
            Parameter, TypeAssertionExpression, AsExpression, EnumDeclaration, AwaitExpression,
            VariableStatement, ModuleDeclaration] \<longrightarrow>
        transformNode exampleEnv (Suc 3) (Some exportAssignment)
          (initialState [exportAssignment, sourceFile])
        = accept ?visit exportAssignment (initialState [exportAssignment, sourceFile])"
    by (elim conjE) assumption
  from this [THEN mp, OF exportKind] exportRule
  have c7: "transformNode exampleEnv (Suc 3) (Some exportAssignment)
              (initialState [exportAssignment, sourceFile])
       = Inr ([Node ''ExportAssignment'' {}
                 {ThisNodeNeedsTransformToES6, SubtreeNeedsTransformToES6} 140 [] None
                 [(P_expression, One (ident 131 ''x''))]],
              initialState [exportAssignment, sourceFile])"
    by (rule trans)
  have statement: "ThisNodeNeedsTransformToES6 \<notin> transformFlags castStatement
                   \<and> SubtreeNeedsTransformToES6 \<in> transformFlags castStatement"
    by (simp add: castStatement_def)
  have statementRule: "accept ?visit castStatement (initialState [castStatement, sourceFile])
       = Inr ([Node ExpressionStatement {} {SubtreeNeedsTransformToES6} 141 [] None
                 [(P_expression, One (ident 131 ''x''))]],
              initialState [castStatement, sourceFile])"
    by code_simp
  from dispatch [of 3 "initialState [castStatement, sourceFile]" castStatement,
      THEN conjunct2, THEN conjunct2, THEN conjunct2, THEN conjunct1, THEN mp, OF statement,
      THEN conjunct1] statementRule
  have c8: "transformNode exampleEnv (Suc 3) (Some castStatement)
              (initialState [castStatement, sourceFile])
       = Inr ([Node ExpressionStatement {} {SubtreeNeedsTransformToES6} 141 [] None
                 [(P_expression, One (ident 131 ''x''))]],
              initialState [castStatement, sourceFile])"
    by (rule trans)
  have four: "(4::nat) = Suc 3"
    by simp
  show ?thesis
    unfolding four by (intro conjI c1 c2 c3 c4 c5 c6 c7 c8 c9)
qed

subsection \<open>Constructor body\<close>

text \<open>
  \<open>transformConstructor\<close> saves the four scope-context variables and restores them, but
  nothing in \<^verbatim>\<open>es6.ts\<close> assigns them a value in between (or anywhere else), so
  \<open>emitConstructorBody\<close> finds all four \<^verbatim>\<open>undefined\<close> and writes no statement.
\<close>

lemma emitConstructorBody_unset:
  assumes "currentBaseTypeNode st = None" and "currentConstructor st = None"
    and "currentParametersWithPropertyAssignments st = None"
    and "currentInstancePropertyAssignments st = None"
  shows "emitConstructorBody env visit node st = Inr ([], st)"
  using assms
  by (simp add: emitConstructorBody_def andThen_def gets_def ret_def optList_def
        transformPropertyDeclarationsToStatements_def)

text \<open>
  C1.  On the class of the spec's scenario,
  \<^verbatim>\<open>class C extends B { x = 1; constructor(public y) { super(); foo(); } }\<close>, lowered
  from the initial state, the constructor that \<open>transformConstructor\<close> builds has the
  parameter \<^verbatim>\<open>y\<close> and an empty body: neither \<^verbatim>\<open>super()\<close>, nor \<^verbatim>\<open>this.y = y\<close>, nor
  \<^verbatim>\<open>this.x = 1\<close>, nor \<^verbatim>\<open>foo()\<close> is in it.
\<close>

theorem scenario_constructor_body_is_empty:
  "transformConstructor exampleEnv (\<lambda>m. transformNode exampleEnv 3 (Some m)) scenarioClass
     (Some scenarioBase) (initialState [scenarioClass, sourceFile])
   = Inr (Some (createConstructor2 [createParameter2 (Some (ident 11 ''y'')) None {}] (createBlock [])),
          initialState [scenarioClass, sourceFile])"
  by code_simp

subsection \<open>Variable statements exported from a namespace\<close>

text \<open>
  C9.  A variable statement marked as a namespace export is lowered by the generic
  descent, like any other node: \<^verbatim>\<open>export var x = 1\<close> inside \<^verbatim>\<open>namespace N\<close> comes out
  as the same variable statement, not as an assignment to the namespace member, and
  \<^verbatim>\<open>export var {a} = o\<close>, whose target is a destructuring pattern, comes out unchanged as
  well: the transform does not abort.
\<close>

theorem exported_variable_statement_unchanged:
  "transformModuleElement exampleEnv 3 (Some (exportedVariable (ident 36 ''x'') (numeral 37 ''1'')))
     (insideNamespace (exportedVariable (ident 36 ''x'') (numeral 37 ''1'')))
   = Inr ([exportedVariable (ident 36 ''x'') (numeral 37 ''1'')],
          insideNamespace (exportedVariable (ident 36 ''x'') (numeral 37 ''1'')))
   \<and> transformModuleElement exampleEnv 3 (Some (exportedVariable objectPattern (ident 36 ''o'')))
       (insideNamespace (exportedVariable objectPattern (ident 36 ''o'')))
     = Inr ([exportedVariable objectPattern (ident 36 ''o'')],
            insideNamespace (exportedVariable objectPattern (ident 36 ''o'')))"
  by code_simp

subsection \<open>Constructor synthesis\<close>

text \<open>
  The claim C2 fails on \<^verbatim>\<open>class D extends B {}\<close>: the class has a base class and no
  user constructor, and the lowering adds no constructor to it.
\<close>

theorem derived_class_gets_no_constructor:
  "\<not> (\<exists>ctor st'. transformConstructor exampleEnv (\<lambda>m. transformNode exampleEnv 3 (Some m))
          derivedClass (Some scenarioBase) (initialState [derivedClass, sourceFile])
        = Inr (Some ctor, st'))"
proof -
  have "transformConstructor exampleEnv (\<lambda>m. transformNode exampleEnv 3 (Some m))
          derivedClass (Some scenarioBase) (initialState [derivedClass, sourceFile])
        = Inr (None, initialState [derivedClass, sourceFile])"
    by code_simp
  then show ?thesis by simp
qed

text \<open>
  C2, as amended.  \<open>transformConstructor\<close> returns no constructor exactly when the class
  has no constructor with a body and no instance field with an initializer, whether or
  not it has a base class (lines 365-369: for this target a class without property
  assignments needs no constructor of its own); the state is then unchanged.
\<close>

theorem constructor_omitted_iff:
  "(getFirstConstructorWithBody node = None \<and> getInitializedProperties node False = None \<longrightarrow>
      transformConstructor env visit node baseTypeNode st = Inr (None, st))
   \<and> (transformConstructor env visit node baseTypeNode st = Inr (None, st') \<longrightarrow>
      getFirstConstructorWithBody node = None \<and> getInitializedProperties node False = None)"
  by (auto simp: transformConstructor_def Let_def ret_def andThen_def gets_def modify_def
           split: option.splits sum.splits if_splits)

theorem constructor_omitted_iff_witness:
  "getFirstConstructorWithBody derivedClass = None
   \<and> getInitializedProperties derivedClass False = None
   \<and> transformConstructor exampleEnv (\<lambda>m. transformNode exampleEnv 3 (Some m)) derivedClass
       (Some scenarioBase) (initialState [derivedClass, sourceFile])
     = Inr (None, initialState [derivedClass, sourceFile])"
proof -
  have h: "getFirstConstructorWithBody derivedClass = None
           \<and> getInitializedProperties derivedClass False = None"
    by code_simp
  with constructor_omitted_iff [of derivedClass exampleEnv
         "\<lambda>m. transformNode exampleEnv 3 (Some m)" "Some scenarioBase"
         "initialState [derivedClass, sourceFile]"]
  show ?thesis by blast
qed

subsection \<open>Await expressions\<close>

lemma visitNode_nodeStack:
  "visitNode visitor n st = Inr (r, st') \<Longrightarrow> nodeStack st' = nodeStack st"
  by (auto simp: visitNode_def withNode_def andThen_def ret_def singleNode_def debugFail_def
           split: option.splits sum.splits list.splits)

text \<open>
  C7, as amended.  The yield expression that replaces an await expression is
  parenthesized exactly when the parent of the await expression is a binary expression
  whose operator is not an assignment operator (the await expression being either
  operand), or a conditional expression whose condition is the await expression; in
  every other position it is written bare.
\<close>

theorem await_parenthesized_iff:
  assumes "transformAwaitExpression visit node st = Inr (outs, st')"
  shows "\<exists>e. visitNode visit (expression node) st = Inr (e, st')
           \<and> outs = [if (\<exists>p. getParentNode st = Some p
                              \<and> (kind p = BinaryExpression
                                   \<and> \<not> (\<exists>t. getNode p P_operatorToken = Some t
                                            \<and> isAssignmentOperator (kind t))
                                 \<or> kind p = ConditionalExpression
                                   \<and> (\<exists>c. getNode p P_condition = Some c \<and> sameNode c node)))
                      then createParenthesizedExpression (createYieldExpression None e)
                      else createYieldExpression None e]"
proof -
  from assms obtain e s1 where v: "visitNode visit (expression node) st = Inr (e, s1)"
    and rest: "outs = [if needsParenthesisForAwaitExpressionAsYield node s1
                       then createParenthesizedExpression (createYieldExpression None e)
                       else createYieldExpression None e]" and s: "st' = s1"
    by (auto simp: transformAwaitExpression_def andThen_def gets_def ret_def Let_def
             split: sum.splits if_splits)
  have "getParentNode s1 = getParentNode st"
    using visitNode_nodeStack [OF v] by (simp add: getParentNode_def)
  then have "needsParenthesisForAwaitExpressionAsYield node s1 =
      (\<exists>p. getParentNode st = Some p
                              \<and> (kind p = BinaryExpression
                                   \<and> \<not> (\<exists>t. getNode p P_operatorToken = Some t
                                            \<and> isAssignmentOperator (kind t))
                                 \<or> kind p = ConditionalExpression
                                   \<and> (\<exists>c. getNode p P_condition = Some c \<and> sameNode c node)))"
    by (auto simp: needsParenthesisForAwaitExpressionAsYield_def split: option.splits)
  with v rest s show ?thesis by simp
qed

text \<open>
  The claim C7 fails on \<^verbatim>\<open>await a + b\<close>: the await expression is the left operand, not
  the right operand nor a condition, and it is lowered to \<^verbatim>\<open>(yield a)\<close>, parenthesized.
\<close>

theorem await_left_operand_parenthesized:
  "transformAwaitExpression (\<lambda>m. transformNode exampleEnv 2 (Some m)) awaitOperand
     (initialState [awaitOperand, awaitSum, sourceFile])
   = Inr ([createParenthesizedExpression (createYieldExpression None (Some (ident 51 ''a'')))],
          initialState [awaitOperand, awaitSum, sourceFile])
   \<and> \<not> rightOperandOrCondition awaitOperand
         (getParentNode (initialState [awaitOperand, awaitSum, sourceFile]))"
  by code_simp

theorem await_parenthesized_iff_witness:
  "(\<exists>e. visitNode (\<lambda>m. transformNode exampleEnv 2 (Some m)) (expression awaitOperand)
          (initialState [awaitOperand, awaitSum, sourceFile])
        = Inr (e, initialState [awaitOperand, awaitSum, sourceFile])
      \<and> [createParenthesizedExpression (createYieldExpression None (Some (ident 51 ''a'')))]
        = [createParenthesizedExpression (createYieldExpression None e)])
   \<and> (\<exists>e. visitNode (\<lambda>m. transformNode exampleEnv 2 (Some m)) (expression awaitInAssignment)
          (initialState [awaitInAssignment, exponentAssignment, sourceFile])
        = Inr (e, initialState [awaitInAssignment, exponentAssignment, sourceFile])
      \<and> [createYieldExpression None (Some (ident 56 ''a''))] = [createYieldExpression None e])"
proof -
  have h': "transformAwaitExpression (\<lambda>m. transformNode exampleEnv 2 (Some m)) awaitInAssignment
     (initialState [awaitInAssignment, exponentAssignment, sourceFile])
   = Inr ([createYieldExpression None (Some (ident 56 ''a''))],
          initialState [awaitInAssignment, exponentAssignment, sourceFile])"
    by code_simp
  have p': "getParentNode (initialState [awaitInAssignment, exponentAssignment, sourceFile])
            = Some exponentAssignment"
    by (simp add: getParentNode_def initialState_def)
  have k': "kind exponentAssignment = BinaryExpression
            \<and> (\<exists>t. getNode exponentAssignment P_operatorToken = Some t
                    \<and> isAssignmentOperator (kind t))"
    by (simp add: exponentAssignment_def getNode_def isAssignmentOperator_def)
  have bare: "createParenthesizedExpression (createYieldExpression None e)
              \<noteq> createYieldExpression None e'" for e e'
    by (simp add: createParenthesizedExpression_def createYieldExpression_def synth_def)
  have h: "transformAwaitExpression (\<lambda>m. transformNode exampleEnv 2 (Some m)) awaitOperand
     (initialState [awaitOperand, awaitSum, sourceFile])
   = Inr ([createParenthesizedExpression (createYieldExpression None (Some (ident 51 ''a'')))],
          initialState [awaitOperand, awaitSum, sourceFile])"
    by code_simp
  have p: "getParentNode (initialState [awaitOperand, awaitSum, sourceFile]) = Some awaitSum"
    by (simp add: getParentNode_def initialState_def)
  have k: "kind awaitSum = BinaryExpression
           \<and> \<not> (\<exists>t. getNode awaitSum P_operatorToken = Some t \<and> isAssignmentOperator (kind t))"
    by (simp add: awaitSum_def getNode_def isAssignmentOperator_def)
  from await_parenthesized_iff [OF h] p k
  have first: "\<exists>e. visitNode (\<lambda>m. transformNode exampleEnv 2 (Some m)) (expression awaitOperand)
          (initialState [awaitOperand, awaitSum, sourceFile])
        = Inr (e, initialState [awaitOperand, awaitSum, sourceFile])
      \<and> [createParenthesizedExpression (createYieldExpression None (Some (ident 51 ''a'')))]
        = [createParenthesizedExpression (createYieldExpression None e)]"
    by (auto split: if_splits)
  from await_parenthesized_iff [OF h'] p' k'
  have second: "\<exists>e. visitNode (\<lambda>m. transformNode exampleEnv 2 (Some m))
          (expression awaitInAssignment)
          (initialState [awaitInAssignment, exponentAssignment, sourceFile])
        = Inr (e, initialState [awaitInAssignment, exponentAssignment, sourceFile])
      \<and> [createYieldExpression None (Some (ident 56 ''a''))] = [createYieldExpression None e]"
    by (auto simp: bare [symmetric] split: if_splits)
  from first second show ?thesis by blast
qed

subsection \<open>Scope context\<close>

text \<open>
  Every function of the transform keeps the scope context, provided the callbacks it is
  given do.  The only assignments to the five variables are the restoring ones at the
  end of \<open>transformConstructor\<close> and the pair in \<open>transformEnumDeclaration\<close>.
\<close>

named_theorems keeps

lemma keepsScopeD: "keepsScope m \<Longrightarrow> m st = Inr (x, st') \<Longrightarrow> scopeContext st' = scopeContext st"
  by (simp add: keepsScope_def)

lemma keeps_ret [keeps]: "keepsScope (ret x)"
  by (simp add: keepsScope_def ret_def)

lemma keeps_debugFail [keeps]: "keepsScope (debugFail msg)"
  by (simp add: keepsScope_def debugFail_def)

lemma keeps_typeError [keeps]: "keepsScope (typeError msg)"
  by (simp add: keepsScope_def typeError_def)

lemma keeps_outOfFuel [keeps]: "keepsScope outOfFuel"
  by (simp add: keepsScope_def outOfFuel_def)

lemma keeps_gets [keeps]: "keepsScope (gets f)"
  by (simp add: keepsScope_def gets_def)

lemma keeps_andThen [keeps]:
  "keepsScope m \<Longrightarrow> (\<And>x. keepsScope (f x)) \<Longrightarrow> keepsScope (andThen m f)"
  unfolding keepsScope_def andThen_def
  by (auto split: sum.splits)

lemma keeps_if [keeps]: "keepsScope a \<Longrightarrow> keepsScope b \<Longrightarrow> keepsScope (if c then a else b)"
  by simp

lemma keeps_case_option [keeps]:
  "keepsScope a \<Longrightarrow> (\<And>y. keepsScope (f y)) \<Longrightarrow> keepsScope (case x of None \<Rightarrow> a | Some y \<Rightarrow> f y)"
  by (cases x) simp_all

lemma keeps_case_list [keeps]:
  "keepsScope a \<Longrightarrow> (\<And>y ys. keepsScope (f y ys)) \<Longrightarrow> keepsScope (case xs of [] \<Rightarrow> a | y # ys \<Rightarrow> f y ys)"
  by (cases xs) simp_all

lemma keeps_case_prod [keeps]:
  "(\<And>a b. keepsScope (f a b)) \<Longrightarrow> keepsScope (case p of (a, b) \<Rightarrow> f a b)"
  by (cases p) simp

lemma keeps_forEach [keeps]: "(\<And>x. keepsScope (f x)) \<Longrightarrow> keepsScope (forEach xs f)"
  by (induction xs) (auto intro!: keeps)

lemma keeps_withNode [keeps]: "keepsScope m \<Longrightarrow> keepsScope (withNode n m)"
  unfolding keepsScope_def withNode_def
  by (auto simp: scopeContext_def split: sum.splits)

lemma keeps_singleNode [keeps]: "keepsScope (singleNode outs)"
  unfolding singleNode_def by (intro keeps)

lemma keeps_visitNode [keeps]: "(\<And>m. keepsScope (visitor m)) \<Longrightarrow> keepsScope (visitNode visitor n)"
  unfolding visitNode_def by (intro keeps)

lemma keeps_emitNodes [keeps]: "(\<And>m. keepsScope (visitor m)) \<Longrightarrow> keepsScope (emitNodes visitor ns)"
  unfolding emitNodes_def by (intro keeps)


lemma keeps_emitNode [keeps]: "(\<And>m. keepsScope (visitor m)) \<Longrightarrow> keepsScope (emitNode visitor n)"
  unfolding emitNode_def by (intro keeps)

lemma keeps_pipeNodes [keeps]: "(\<And>m. keepsScope (visitor m)) \<Longrightarrow> keepsScope (pipeNodes visitor ns)"
  unfolding pipeNodes_def by (intro keeps)

lemma keeps_visitNodes [keeps]: "(\<And>m. keepsScope (visitor m)) \<Longrightarrow> keepsScope (visitNodes visitor ns)"
  unfolding visitNodes_def by (intro keeps)

lemma keeps_liftToBlock [keeps]: "keepsScope (liftToBlock outs)"
  unfolding liftToBlock_def by (intro keeps)

lemma keeps_visitStatement [keeps]:
  "(\<And>m. keepsScope (visitor m)) \<Longrightarrow> keepsScope (visitStatement visitor n)"
  unfolding visitStatement_def by (intro keeps)

lemma keeps_visitNewLexicalEnvironment [keeps]:
  "(\<And>m. keepsScope (visitor m)) \<Longrightarrow> keepsScope (visitNewLexicalEnvironment visitor n)"
  unfolding visitNewLexicalEnvironment_def by (intro keeps)

lemma keeps_acceptChild [keeps]:
  "(\<And>m. keepsScope (visitor m)) \<Longrightarrow> keepsScope (acceptChild visitor pc)"
  unfolding acceptChild_def by (cases pc; cases "snd pc") (auto intro!: keeps)

lemma keeps_accept [keeps]: "(\<And>m. keepsScope (visitor m)) \<Longrightarrow> keepsScope (accept visitor n)"
  unfolding accept_def by (intro keeps)

lemma keeps_declareLocal [keeps]: "keepsScope (declareLocal env)"
  by (simp add: keepsScope_def declareLocal_def Let_def scopeContext_def)

lemma keeps_hoistVariableDeclaration [keeps]: "keepsScope (hoistVariableDeclaration n)"
  by (simp add: keepsScope_def hoistVariableDeclaration_def modify_def scopeContext_def)

lemma keeps_getModuleMemberName [keeps]:
  "keepsScope (getModuleMemberName env node)"
  unfolding getModuleMemberName_def Let_def 
  by (intro keeps)

lemma keeps_getExpressionForPropertyName [keeps]:
  "keepsScope (getExpressionForPropertyName env container)"
  unfolding getExpressionForPropertyName_def Let_def 
  by (intro keeps)

lemma keeps_transformPropertyName [keeps]:
  "(\<And>m. keepsScope (visit m)) \<Longrightarrow> keepsScope (transformPropertyName env visit container)"
  unfolding transformPropertyName_def Let_def 
  by (intro keeps)

lemma keeps_transformPropertyDeclaration [keeps]:
  "(\<And>m. keepsScope (visit m)) \<Longrightarrow> keepsScope (transformPropertyDeclaration env visit node property)"
  unfolding transformPropertyDeclaration_def Let_def 
  by (intro keeps)

lemma keeps_transformPropertyDeclarationsToStatements [keeps]:
  "(\<And>m. keepsScope (visit m)) \<Longrightarrow> keepsScope (transformPropertyDeclarationsToStatements env visit node properties)"
  unfolding transformPropertyDeclarationsToStatements_def Let_def 
  by (intro keeps)

lemma keeps_transformPropertyDeclarationsToExpressions [keeps]:
  "(\<And>m. keepsScope (visit m)) \<Longrightarrow> keepsScope (transformPropertyDeclarationsToExpressions env visit node properties)"
  unfolding transformPropertyDeclarationsToExpressions_def Let_def 
  by (intro keeps)

lemma keeps_emitConstructorBody [keeps]:
  "(\<And>m. keepsScope (visit m)) \<Longrightarrow> keepsScope (emitConstructorBody env visit node)"
  unfolding emitConstructorBody_def Let_def 
  by (intro keeps)

lemma keeps_transformHeritageClause [keeps]:
  "(\<And>m. keepsScope (visit m)) \<Longrightarrow> keepsScope (transformHeritageClause visit node)"
  unfolding transformHeritageClause_def Let_def 
  by (intro keeps)

lemma keeps_transformExpressionWithTypeArguments [keeps]:
  "(\<And>m. keepsScope (visit m)) \<Longrightarrow> keepsScope (transformExpressionWithTypeArguments visit node)"
  unfolding transformExpressionWithTypeArguments_def Let_def 
  by (intro keeps)

lemma keeps_visitAndGetClassExtendsHeritageClauseElement [keeps]:
  "(\<And>m. keepsScope (visit m)) \<Longrightarrow> keepsScope (visitAndGetClassExtendsHeritageClauseElement visit node)"
  unfolding visitAndGetClassExtendsHeritageClauseElement_def Let_def 
  by (intro keeps)

lemma keeps_serializeTypeReferenceNode [keeps]:
  "keepsScope (serializeTypeReferenceNode node)"
  unfolding serializeTypeReferenceNode_def Let_def 
  by (intro keeps)

lemma keeps_serializeTypeNode [keeps]: "keepsScope (serializeTypeNode env n)"
proof (induction env n rule: serializeTypeNode.induct)
  case (1 env n)
  show ?case
  proof (cases n)
    case None
    then show ?thesis
      by (subst serializeTypeNode.simps) (simp add: keeps)
  next
    case (Some node)
    show ?thesis
    proof (cases "kind node = ParenthesizedType")
      case True
      with Some have "serializeTypeNode env n = serializeTypeNode env (getNode node P_type)"
        by (subst serializeTypeNode.simps) simp
      with 1 [OF Some _ True] True show ?thesis by simp
    next
      case False
      with Some show ?thesis
        by (subst serializeTypeNode.simps) (auto intro!: keeps)
    qed
  qed
qed

lemma keeps_serializeTypeOfNode [keeps]:
  "keepsScope (serializeTypeOfNode env node)"
  unfolding serializeTypeOfNode_def Let_def 
  by (intro keeps)

lemma keeps_serializeParameterTypesOfNode [keeps]:
  "keepsScope (serializeParameterTypesOfNode env node)"
  unfolding serializeParameterTypesOfNode_def Let_def 
  by (intro keeps)

lemma keeps_serializeReturnTypeOfNode [keeps]:
  "keepsScope (serializeReturnTypeOfNode env node)"
  unfolding serializeReturnTypeOfNode_def Let_def 
  by (intro keeps)

lemma keeps_appendSerializedTypeMetadata [keeps]:
  "keepsScope (appendSerializedTypeMetadata env node)"
  unfolding appendSerializedTypeMetadata_def Let_def 
  by (intro keeps)

lemma keeps_visitDecoratorExpressions [keeps]:
  "(\<And>m. keepsScope (visit m)) \<Longrightarrow> keepsScope (visitDecoratorExpressions visit ds)"
  unfolding visitDecoratorExpressions_def Let_def 
  by (intro keeps)

lemma keeps_appendDecoratorsOfParameters [keeps]:
  "(\<And>m. keepsScope (visit m)) \<Longrightarrow> keepsScope (appendDecoratorsOfParameters env visit params)"
  unfolding appendDecoratorsOfParameters_def Let_def 
  by (intro keeps)

lemma keeps_transformDecoratorsOfMember [keeps]:
  "(\<And>m. keepsScope (visit m)) \<Longrightarrow> keepsScope (transformDecoratorsOfMember env visit node member)"
  unfolding transformDecoratorsOfMember_def Let_def 
  by (intro keeps)

lemma keeps_transformDecoratorsOfMembers [keeps]:
  "(\<And>m. keepsScope (visit m)) \<Longrightarrow> keepsScope (transformDecoratorsOfMembers env visit node isStatic)"
  unfolding transformDecoratorsOfMembers_def Let_def 
  by (intro keeps)

lemma keeps_transformDecoratorsOfConstructor [keeps]:
  "(\<And>m. keepsScope (visit m)) \<Longrightarrow> keepsScope (transformDecoratorsOfConstructor env visit node)"
  unfolding transformDecoratorsOfConstructor_def Let_def 
  by (intro keeps)

lemma keeps_transformConstructor [keeps]:
  assumes "\<And>m. keepsScope (visit m)"
  shows "keepsScope (transformConstructor env visit node baseTypeNode)"
  unfolding keepsScope_def
proof (intro allI impI)
  fix st r st'
  assume run: "transformConstructor env visit node baseTypeNode st = Inr (r, st')"
  let ?params = "case getFirstConstructorWithBody node of
                   Some c \<Rightarrow> emitNodes visit (parameters c)
                 | None \<Rightarrow> ret (if baseTypeNode \<noteq> None
                               then [createRestParameter (createIdentifier ''args'') {GeneratedRest}]
                               else [])"
  have kp: "keepsScope ?params" by (intro keeps assms)
  have kb: "keepsScope (emitNode (emitConstructorBody env visit) node)" by (intro keeps assms)
  show "scopeContext st' = scopeContext st"
  proof (cases "(case getFirstConstructorWithBody node of
                   Some c \<Rightarrow> getParametersWithPropertyAssignments c | None \<Rightarrow> None) = None
                \<and> getInitializedProperties node False = None")
    case True
    with run show ?thesis
      by (simp add: transformConstructor_def Let_def ret_def)
  next
    case False
    with run obtain ps s1 stmts s2 where
      p: "?params st = Inr (ps, s1)"
      and b: "emitNode (emitConstructorBody env visit) node s1 = Inr (stmts, s2)"
      and e: "st' = s2
                \<lparr> currentBaseTypeNode := currentBaseTypeNode s1,
                  currentConstructor := currentConstructor s1,
                  currentParametersWithPropertyAssignments := currentParametersWithPropertyAssignments s1,
                  currentInstancePropertyAssignments := currentInstancePropertyAssignments s1 \<rparr>"
      by (auto simp: transformConstructor_def Let_def andThen_def gets_def modify_def ret_def
               split: sum.splits)
    from keepsScopeD [OF kp p] keepsScopeD [OF kb b] e show ?thesis
      by (simp add: scopeContext_def)
  qed
qed

lemma keeps_transformClassDeclaration [keeps]:
  "(\<And>m. keepsScope (visit m)) \<Longrightarrow> keepsScope (transformClassDeclaration env visit node)"
  unfolding transformClassDeclaration_def Let_def 
  by (intro keeps)

lemma keeps_transformClassExpression [keeps]:
  "(\<And>m. keepsScope (visit m)) \<Longrightarrow> keepsScope (transformClassExpression env visit node)"
  unfolding transformClassExpression_def Let_def 
  by (intro keeps)

lemma keeps_transformAsyncFunctionBody [keeps]:
  "(\<And>m. keepsScope (visit m)) \<Longrightarrow> keepsScope (transformAsyncFunctionBody env visit node)"
  unfolding transformAsyncFunctionBody_def Let_def 
  by (intro keeps)

lemma keeps_transformFunctionBody [keeps]:
  "(\<And>m. keepsScope (visit m)) \<Longrightarrow> keepsScope (transformFunctionBody env visit node)"
  unfolding transformFunctionBody_def Let_def 
  by (intro keeps)

lemma keeps_transformMethodDeclaration [keeps]:
  "(\<And>m. keepsScope (visit m)) \<Longrightarrow> keepsScope (transformMethodDeclaration env visit node)"
  unfolding transformMethodDeclaration_def Let_def 
  by (intro keeps)

lemma keeps_transformGetAccessor [keeps]:
  "(\<And>m. keepsScope (visit m)) \<Longrightarrow> keepsScope (transformGetAccessor env visit node)"
  unfolding transformGetAccessor_def Let_def 
  by (intro keeps)

lemma keeps_transformSetAccessor [keeps]:
  "(\<And>m. keepsScope (visit m)) \<Longrightarrow> keepsScope (transformSetAccessor env visit node)"
  unfolding transformSetAccessor_def Let_def 
  by (intro keeps)

lemma keeps_transformFunctionDeclaration [keeps]:
  "(\<And>m. keepsScope (visit m)) \<Longrightarrow> keepsScope (transformFunctionDeclaration env visit node)"
  unfolding transformFunctionDeclaration_def Let_def 
  by (intro keeps)

lemma keeps_transformFunctionExpression [keeps]:
  "(\<And>m. keepsScope (visit m)) \<Longrightarrow> keepsScope (transformFunctionExpression env visit node)"
  unfolding transformFunctionExpression_def Let_def 
  by (intro keeps)

lemma keeps_transformArrowFunction [keeps]:
  "(\<And>m. keepsScope (visit m)) \<Longrightarrow> keepsScope (transformArrowFunction env visit node)"
  unfolding transformArrowFunction_def Let_def 
  by (intro keeps)

lemma keeps_transformParameter [keeps]:
  "(\<And>m. keepsScope (visit m)) \<Longrightarrow> keepsScope (transformParameter visit node)"
  unfolding transformParameter_def Let_def 
  by (intro keeps)

lemma keeps_transformVariableStatement [keeps]:
  "(\<And>m. keepsScope (visit m)) \<Longrightarrow> keepsScope (transformVariableStatement visit node)"
  unfolding transformVariableStatement_def Let_def 
  by (intro keeps)

lemma keeps_transformModuleDeclaration [keeps]:
  "(\<And>m. keepsScope (visit m)) \<Longrightarrow> (\<And>m. keepsScope (visitElement m)) \<Longrightarrow> keepsScope (transformModuleDeclaration env visit visitElement node)"
  unfolding transformModuleDeclaration_def Let_def 
  by (intro keeps)

lemma keeps_getEnumMemberDeclarationValue [keeps]:
  "(\<And>m. keepsScope (visit m)) \<Longrightarrow> keepsScope (getEnumMemberDeclarationValue env visit member)"
  unfolding getEnumMemberDeclarationValue_def Let_def 
  by (intro keeps)

lemma keeps_emitEnumMember [keeps]:
  "(\<And>m. keepsScope (visit m)) \<Longrightarrow> keepsScope (emitEnumMember env visit node)"
  unfolding emitEnumMember_def Let_def 
  by (intro keeps)

lemma keeps_transformEnumDeclaration [keeps]:
  assumes "\<And>m. keepsScope (visit m)"
  shows "keepsScope (transformEnumDeclaration env visit node)"
  unfolding keepsScope_def
proof (intro allI impI)
  fix st outs st'
  assume run: "transformEnumDeclaration env visit node st = Inr (outs, st')"
  show "scopeContext st' = scopeContext st"
  proof (cases "shouldEmitEnumDeclaration env node")
    case False
    with run show ?thesis by (simp add: transformEnumDeclaration_def ret_def)
  next
    case True
    let ?s0 = "st\<lparr>currentEnumLocalName := Some (getGeneratedNameForNode env node)\<rparr>"
    have km: "keepsScope (emitNodes (emitEnumMember env visit) (members node))"
      by (intro keeps assms)
    have kn: "keepsScope (getModuleMemberName env node)" by (intro keeps)
    from run True obtain stmts s1 memberName s2 where
      m: "emitNodes (emitEnumMember env visit) (members node) ?s0 = Inr (stmts, s1)"
      and n: "getModuleMemberName env node s1 = Inr (memberName, s2)"
      and e: "st' = s2\<lparr>currentEnumLocalName := currentEnumLocalName st\<rparr>"
      by (auto simp: transformEnumDeclaration_def Let_def andThen_def gets_def modify_def ret_def
               split: sum.splits if_splits)
    from keepsScopeD [OF km m] keepsScopeD [OF kn n] e show ?thesis
      by (simp add: scopeContext_def)
  qed
qed

lemma keeps_transformAwaitExpression [keeps]:
  "(\<And>m. keepsScope (visit m)) \<Longrightarrow> keepsScope (transformAwaitExpression visit node)"
  unfolding transformAwaitExpression_def Let_def 
  by (intro keeps)

lemma keeps_transformNodeWorker [keeps]:
  "(\<And>m. keepsScope (visit m)) \<Longrightarrow> (\<And>m. keepsScope (visitElement m)) \<Longrightarrow> keepsScope (transformNodeWorker env visit visitElement node)"
  unfolding transformNodeWorker_def Let_def 
  by (intro keeps)

lemma keeps_transformNodeBody [keeps]:
  "(\<And>m. keepsScope (visit m)) \<Longrightarrow> (\<And>m. keepsScope (visitElement m)) \<Longrightarrow> keepsScope (transformNodeBody env visit visitElement n)"
  unfolding transformNodeBody_def Let_def 
  by (intro keeps)

lemma keeps_transformModuleElementBody [keeps]:
  "(\<And>m. keepsScope (visit m)) \<Longrightarrow> (\<And>m. keepsScope (visitElement m)) \<Longrightarrow> keepsScope (transformModuleElementBody env visit visitElement n)"
  unfolding transformModuleElementBody_def Let_def 
  by (intro keeps)

lemma keeps_transformNode:
  "keepsScope (transformNode env d n) \<and> keepsScope (transformModuleElement env d n)"
proof (induction d arbitrary: n)
  case 0
  show ?case by (auto intro!: keeps)
next
  case (Suc d)
  then show ?case by (auto intro!: keeps)
qed


text \<open>
  C10.  When \<open>transformConstructor\<close> returns, \<^verbatim>\<open>currentBaseTypeNode\<close>,
  \<^verbatim>\<open>currentConstructor\<close>, \<^verbatim>\<open>currentParametersWithPropertyAssignments\<close> and
  \<^verbatim>\<open>currentInstancePropertyAssignments\<close> hold the values they held at entry, and when
  \<open>transformEnumDeclaration\<close> returns, \<^verbatim>\<open>currentEnumLocalName\<close> holds the value it held at
  entry; so does every lowering \<open>transformNode\<close> of a node, at every depth: what a nested
  scope sets is not seen outside it.
\<close>

theorem scope_context_restored:
  "(transformConstructor env (\<lambda>m. transformNode env d (Some m)) node baseTypeNode st = Inr (r, st1) \<longrightarrow>
      currentBaseTypeNode st1 = currentBaseTypeNode st
      \<and> currentConstructor st1 = currentConstructor st
      \<and> currentParametersWithPropertyAssignments st1 = currentParametersWithPropertyAssignments st
      \<and> currentInstancePropertyAssignments st1 = currentInstancePropertyAssignments st)
   \<and> (transformEnumDeclaration env (\<lambda>m. transformNode env d (Some m)) node st = Inr (outs, st2) \<longrightarrow>
      currentEnumLocalName st2 = currentEnumLocalName st)
   \<and> (transformNode env d n st = Inr (outs', st3) \<longrightarrow>
      currentBaseTypeNode st3 = currentBaseTypeNode st
      \<and> currentConstructor st3 = currentConstructor st
      \<and> currentParametersWithPropertyAssignments st3 = currentParametersWithPropertyAssignments st
      \<and> currentInstancePropertyAssignments st3 = currentInstancePropertyAssignments st
      \<and> currentEnumLocalName st3 = currentEnumLocalName st)"
proof -
  have v: "\<And>m. keepsScope (transformNode env d (Some m))"
    using keeps_transformNode by blast
  have c: "keepsScope (transformConstructor env (\<lambda>m. transformNode env d (Some m)) node baseTypeNode)"
    by (intro keeps v)
  have e: "keepsScope (transformEnumDeclaration env (\<lambda>m. transformNode env d (Some m)) node)"
    by (intro keeps v)
  have t: "keepsScope (transformNode env d n)"
    using keeps_transformNode by blast
  show ?thesis
    using keepsScopeD [OF c, of st r st1] keepsScopeD [OF e, of st outs st2]
      keepsScopeD [OF t, of st outs' st3]
    by (simp add: scopeContext_def)
qed

theorem scope_context_restored_witness:
  "(\<exists>r st1. transformConstructor exampleEnv (\<lambda>m. transformNode exampleEnv 3 (Some m)) scenarioClass
               (Some scenarioBase) (insideEnumScope [scenarioClass, sourceFile]) = Inr (r, st1)
             \<and> currentBaseTypeNode st1 = None \<and> currentConstructor st1 = None
             \<and> currentParametersWithPropertyAssignments st1 = None
             \<and> currentInstancePropertyAssignments st1 = None)
   \<and> (\<exists>outs st2. transformEnumDeclaration enumEnv (\<lambda>m. transformNode enumEnv 3 (Some m)) scenarioEnum
                   (insideEnumScope [scenarioEnum, sourceFile]) = Inr (outs, st2)
                 \<and> currentEnumLocalName st2 = Some (ident 67 ''Outer_1''))"
proof -
  have "case transformConstructor exampleEnv (\<lambda>m. transformNode exampleEnv 3 (Some m)) scenarioClass
               (Some scenarioBase) (insideEnumScope [scenarioClass, sourceFile])
        of Inl _ \<Rightarrow> False | Inr _ \<Rightarrow> True"
    by code_simp
  then obtain r st1 where
    c: "transformConstructor exampleEnv (\<lambda>m. transformNode exampleEnv 3 (Some m)) scenarioClass
          (Some scenarioBase) (insideEnumScope [scenarioClass, sourceFile]) = Inr (r, st1)"
    by (auto split: sum.splits)
  have "case transformEnumDeclaration enumEnv (\<lambda>m. transformNode enumEnv 3 (Some m)) scenarioEnum
               (insideEnumScope [scenarioEnum, sourceFile])
        of Inl _ \<Rightarrow> False | Inr _ \<Rightarrow> True"
    by code_simp
  then obtain outs st2 where
    e: "transformEnumDeclaration enumEnv (\<lambda>m. transformNode enumEnv 3 (Some m)) scenarioEnum
          (insideEnumScope [scenarioEnum, sourceFile]) = Inr (outs, st2)"
    by (auto split: sum.splits)
  from scope_context_restored [where env = exampleEnv and d = 3 and node = scenarioClass
      and baseTypeNode = "Some scenarioBase"
      and st = "insideEnumScope [scenarioClass, sourceFile]" and r = r and ?st1.0 = st1] c
  have c': "currentBaseTypeNode st1 = None \<and> currentConstructor st1 = None
             \<and> currentParametersWithPropertyAssignments st1 = None
             \<and> currentInstancePropertyAssignments st1 = None"
    by (simp add: insideEnumScope_def initialState_def)
  from scope_context_restored [where env = enumEnv and d = 3 and node = scenarioEnum
      and st = "insideEnumScope [scenarioEnum, sourceFile]" and outs = outs and ?st2.0 = st2] e
  have e': "currentEnumLocalName st2 = Some (ident 67 ''Outer_1'')"
    by (simp add: insideEnumScope_def initialState_def)
  from c c' e e' show ?thesis by blast
qed

subsection \<open>Decorators\<close>

lemma andThen_ret_nil: "andThen (ret []) (\<lambda>a. andThen m (\<lambda>b. ret (a @ b))) = m"
  by (rule ext) (simp add: andThen_def ret_def split: sum.splits)

lemma forEach_filter:
  "forEach xs (\<lambda>x. if P x then f x else ret []) = forEach (filter P xs) f"
  by (induction xs) (simp_all add: andThen_ret_nil)

lemma transformDecoratorsOfMembers_filter:
  "transformDecoratorsOfMembers env visit node isStatic =
     forEach (membersToDecorate env node isStatic) (transformDecoratorsOfMember env visit node)"
proof -
  have "(\<lambda>member. if isStatic \<noteq> (Static \<in> flags member) then ret []
                   else if \<not> nodeCanBeDecorated env member \<or> \<not> nodeOrChildIsDecorated env member
                        then ret []
                        else transformDecoratorsOfMember env visit node member)
        = (\<lambda>member. if isStatic = (Static \<in> flags member)
                        \<and> nodeCanBeDecorated env member \<and> nodeOrChildIsDecorated env member
                      then transformDecoratorsOfMember env visit node member else ret [])"
    by (rule ext) auto
  then show ?thesis
    unfolding transformDecoratorsOfMembers_def membersToDecorate_def
    by (simp only: forEach_filter)
qed

lemma forEach_all:
  assumes "\<And>x s outs s'. f x s = Inr (outs, s') \<Longrightarrow> list_all Q outs"
  shows "forEach xs f st = Inr (outs, st') \<Longrightarrow> list_all Q outs"
proof (induction xs arbitrary: st outs)
  case Nil
  then show ?case by (simp add: ret_def)
next
  case (Cons x xs)
  from Cons.prems obtain a s1 b where fx: "f x st = Inr (a, s1)"
    and rest: "forEach xs f s1 = Inr (b, st')" and outs: "outs = a @ b"
    by (auto simp: andThen_def ret_def split: sum.splits)
  from assms [OF fx] Cons.IH [OF rest] outs show ?case by simp
qed

lemma isDecorateCall_createDecorateHelperCall [simp]:
  "isDecorateCall (createDecorateHelperCall ds t m d)"
  by (simp add: isDecorateCall_def createDecorateHelperCall_def createCallExpression2_def synth_def
        expression_def getNode_def createIdentifier_def)

lemma isDecorateCallStatement_direct [simp]:
  "isDecorateCallStatement (createExpressionStatement (createDecorateHelperCall ds t m d) fl)"
  by (simp add: isDecorateCallStatement_def createExpressionStatement_def synthFlagged_def
        expression_def getNode_def)

lemma isDecorateCallStatement_defineProperty [simp]:
  "isDecorateCallStatement
     (createExpressionStatement
        (createDefinePropertyCall p n (createDecorateHelperCall ds t m d)) fl)"
  by (simp add: isDecorateCallStatement_def createExpressionStatement_def synthFlagged_def
        expression_def getNode_def createDefinePropertyCall_def createCallExpression2_def synth_def
        getNodes_def)

lemma not_decorate_assignment [simp]:
  "\<not> isDecorateCallStatement (createExpressionStatement (createAssignmentExpression l r) fl)"
  by (simp add: isDecorateCallStatement_def createExpressionStatement_def synthFlagged_def
        expression_def getNode_def createAssignmentExpression_def createBinary_def synth_def
        isDecorateCall_def)

lemma not_decorate_declaration [simp]:
  "\<not> isDecorateCallStatement (createSimpleLetStatement n v e)"
  "\<not> isDecorateCallStatement (createClassDeclaration2 n' b ms fl)"
  "\<not> isDecorateCallStatement (createExportDefaultStatement n'')"
  by (simp_all add: isDecorateCallStatement_def createSimpleLetStatement_def
        createVariableStatement2_def createClassDeclaration2_def createExportDefaultStatement_def
        synthFlagged_def)

lemma transformDecoratorsOfMember_calls:
  "transformDecoratorsOfMember env visit node member st = Inr (outs, st')
   \<Longrightarrow> list_all isDecorateCallStatement outs"
  by (auto simp: transformDecoratorsOfMember_def Let_def andThen_def ret_def
           split: option.splits sum.splits if_splits prod.splits)

lemma staticProperties_not_calls:
  "transformPropertyDeclarationsToStatements env visit node properties st = Inr (outs, st')
   \<Longrightarrow> list_all (\<lambda>s. \<not> isDecorateCallStatement s) outs"
  unfolding transformPropertyDeclarationsToStatements_def
  by (cases properties)
     (auto simp: ret_def andThen_def transformPropertyDeclaration_def Let_def
           split: sum.splits elim!: forEach_all [rotated])

lemma transformDecoratorsOfConstructor_call:
  "transformDecoratorsOfConstructor env visit node st = Inr (outs, st')
   \<Longrightarrow> list_all isDecorateCallStatement outs
       \<and> length outs = (if decorators node \<noteq> None \<or> hasDecoratedParameters env node then 1 else 0)"
  by (auto simp: transformDecoratorsOfConstructor_def Let_def andThen_def ret_def
           split: option.splits sum.splits if_splits)





lemma gets_Inr_iff: "gets f st = Inr (r, st') \<longleftrightarrow> r = f st \<and> st' = st"
  by (auto simp: gets_def)

lemma ret_Inr_iff: "ret x st = Inr (r, st') \<longleftrightarrow> r = x \<and> st' = st"
  by (auto simp: ret_def)


lemma andThenE:
  assumes "andThen m f st = Inr (r, st')"
  obtains x s where "m st = Inr (x, s)" and "f x s = Inr (r, st')"
  using assms by (auto simp: andThen_def split: sum.splits)

lemma transformClassDeclaration_parts:
  assumes "transformClassDeclaration env visit node st = Inr (outs, st')"
  shows "\<exists>classStatement staticProperties instanceCalls staticCalls constructorCall trailer
            s0 s1 s2 s3 s4.
           outs = classStatement # staticProperties @ instanceCalls @ staticCalls @ constructorCall @ trailer
         \<and> \<not> isDecorateCallStatement classStatement
         \<and> transformPropertyDeclarationsToStatements env visit node
                 (getInitializedProperties node True) s0 = Inr (staticProperties, s1)
         \<and> transformDecoratorsOfMembers env visit node False s1 = Inr (instanceCalls, s2)
         \<and> transformDecoratorsOfMembers env visit node True s2 = Inr (staticCalls, s3)
         \<and> transformDecoratorsOfConstructor env visit node s3 = Inr (constructorCall, s4)
         \<and> list_all (\<lambda>s. \<not> isDecorateCallStatement s) trailer"
  apply (insert assms, unfold transformClassDeclaration_def Let_def)
  apply (erule andThenE)+
  subgoal premises p for x s xa sa xb sb xc sc xd sd xe se xf sf xg sg xh sh xi si xj sj
  proof -
    let ?c = "if nodeIsDecorated env node
               then createSimpleLetStatement (Some (getDeclarationName env node))
                     (createClassExpression3 x (optList xa @ xb)) xc
               else createClassDeclaration2 (Some (getDeclarationName env node)) x (optList xa @ xb)
                     (if xd then {} else flags node \<inter> {Export, Default})"
    have tr: "list_all (\<lambda>s. \<not> isDecorateCallStatement s) xj"
      using p(11) by (auto simp: andThen_def gets_def ret_def split: if_splits sum.splits)
    have outs: "outs = ?c # xe @ xf @ xg @ xh @ xj"
      using p(12) by (simp add: ret_def)
    have decl: "\<not> isDecorateCallStatement ?c"
      by simp
    show ?thesis
      by (intro exI conjI) (rule outs decl p(6) p(7) p(8) p(9) tr)+
  qed
  done

text \<open>
  C5.  The statements that \<open>transformClassDeclaration\<close> writes for a class are the class
  itself, the static field initializers, the decorate calls of the instance members that
  pass the guard (in member order), then those of the static members, then the decorate
  call of the constructor, then at most one export statement.  The decorate-call
  statements among them are exactly the three middle groups, in this order, and the
  constructor's call is written if and only if the class carries decorators or a
  parameter of its constructor (the first one with a body) is decorated.
\<close>

theorem decorator_statement_order:
  assumes "transformClassDeclaration env visit node st = Inr (outs, st')"
  shows "\<exists>classStatement staticProperties instanceCalls staticCalls constructorCall trailer s1 s2 s3 s4.
           outs = classStatement # staticProperties @ instanceCalls @ staticCalls @ constructorCall @ trailer
         \<and> forEach (membersToDecorate env node False) (transformDecoratorsOfMember env visit node) s1
             = Inr (instanceCalls, s2)
         \<and> forEach (membersToDecorate env node True) (transformDecoratorsOfMember env visit node) s2
             = Inr (staticCalls, s3)
         \<and> transformDecoratorsOfConstructor env visit node s3 = Inr (constructorCall, s4)
         \<and> filter isDecorateCallStatement outs = instanceCalls @ staticCalls @ constructorCall
         \<and> length constructorCall
             = (if decorators node \<noteq> None \<or> hasDecoratedParameters env node then 1 else 0)"
proof -
  from transformClassDeclaration_parts [OF assms]
  obtain classStatement staticProperties instanceCalls staticCalls constructorCall trailer
      s0 s1 s2 s3 s4
    where outs: "outs = classStatement # staticProperties @ instanceCalls @ staticCalls
                          @ constructorCall @ trailer"
      and decl: "\<not> isDecorateCallStatement classStatement"
      and sp: "transformPropertyDeclarationsToStatements env visit node
                 (getInitializedProperties node True) s0 = Inr (staticProperties, s1)"
      and ic: "transformDecoratorsOfMembers env visit node False s1 = Inr (instanceCalls, s2)"
      and sc: "transformDecoratorsOfMembers env visit node True s2 = Inr (staticCalls, s3)"
      and cc: "transformDecoratorsOfConstructor env visit node s3 = Inr (constructorCall, s4)"
      and tr: "list_all (\<lambda>s. \<not> isDecorateCallStatement s) trailer"
    by blast
  have f1: "filter isDecorateCallStatement staticProperties = []"
    using staticProperties_not_calls [OF sp] by (simp add: list_all_iff)
  have "list_all isDecorateCallStatement instanceCalls"
    using ic unfolding transformDecoratorsOfMembers_filter
    by (rule forEach_all [rotated]) (rule transformDecoratorsOfMember_calls)
  then have f2: "filter isDecorateCallStatement instanceCalls = instanceCalls"
    by (simp add: list_all_iff)
  have "list_all isDecorateCallStatement staticCalls"
    using sc unfolding transformDecoratorsOfMembers_filter
    by (rule forEach_all [rotated]) (rule transformDecoratorsOfMember_calls)
  then have f3: "filter isDecorateCallStatement staticCalls = staticCalls"
    by (simp add: list_all_iff)
  have f4: "filter isDecorateCallStatement constructorCall = constructorCall"
    using transformDecoratorsOfConstructor_call [OF cc] by (simp add: list_all_iff)
  have f5: "filter isDecorateCallStatement trailer = []"
    using tr by (simp add: list_all_iff)
  have len: "length constructorCall
             = (if decorators node \<noteq> None \<or> hasDecoratedParameters env node then 1 else 0)"
    using transformDecoratorsOfConstructor_call [OF cc] by simp
  from outs decl f1 f2 f3 f4 f5 have flt:
    "filter isDecorateCallStatement outs = instanceCalls @ staticCalls @ constructorCall"
    by simp
  show ?thesis
    by (intro exI conjI)
       (rule outs ic [unfolded transformDecoratorsOfMembers_filter]
          sc [unfolded transformDecoratorsOfMembers_filter] cc flt len)+
qed


theorem decorator_statement_order_witness:
  "\<exists>outs st'. transformClassDeclaration exampleEnv (\<lambda>m. transformNode exampleEnv 3 (Some m))
                 decoratedClass (initialState [decoratedClass, sourceFile]) = Inr (outs, st')
      \<and> filter isDecorateCallStatement outs =
          [createExpressionStatement
             (createDecorateHelperCall [ident 80 ''m1'']
                (Some (createPropertyAccessExpression2 (Some (ident 73 ''K''))
                         (Some (createIdentifier ''prototype''))))
                (Some (createStringLiteral ''p'')) None) {},
           createExpressionStatement
             (createDecorateHelperCall [ident 76 ''m2''] (Some (ident 73 ''K''))
                (Some (createStringLiteral ''q'')) None) {},
           createExpressionStatement
             (createDecorateHelperCall
                [ident 72 ''dec'', createParamHelperCall 0 (Some (ident 85 ''pd''))]
                (Some (ident 73 ''K'')) None None) {}]
      \<and> (\<exists>instanceCalls staticCalls constructorCall.
            filter isDecorateCallStatement outs = instanceCalls @ staticCalls @ constructorCall
            \<and> length constructorCall = 1)"
proof -
  let ?run = "transformClassDeclaration exampleEnv (\<lambda>m. transformNode exampleEnv 3 (Some m))
                 decoratedClass (initialState [decoratedClass, sourceFile])"
  have "case ?run of
          Inl _ \<Rightarrow> False
        | Inr (outs, _) \<Rightarrow>
            filter isDecorateCallStatement outs =
              [createExpressionStatement
                 (createDecorateHelperCall [ident 80 ''m1'']
                    (Some (createPropertyAccessExpression2 (Some (ident 73 ''K''))
                             (Some (createIdentifier ''prototype''))))
                    (Some (createStringLiteral ''p'')) None) {},
               createExpressionStatement
                 (createDecorateHelperCall [ident 76 ''m2''] (Some (ident 73 ''K''))
                    (Some (createStringLiteral ''q'')) None) {},
               createExpressionStatement
                 (createDecorateHelperCall
                    [ident 72 ''dec'', createParamHelperCall 0 (Some (ident 85 ''pd''))]
                    (Some (ident 73 ''K'')) None None) {}]"
    by code_simp
  then obtain outs st' where run: "?run = Inr (outs, st')"
    and calls: "filter isDecorateCallStatement outs =
              [createExpressionStatement
                 (createDecorateHelperCall [ident 80 ''m1'']
                    (Some (createPropertyAccessExpression2 (Some (ident 73 ''K''))
                             (Some (createIdentifier ''prototype''))))
                    (Some (createStringLiteral ''p'')) None) {},
               createExpressionStatement
                 (createDecorateHelperCall [ident 76 ''m2''] (Some (ident 73 ''K''))
                    (Some (createStringLiteral ''q'')) None) {},
               createExpressionStatement
                 (createDecorateHelperCall
                    [ident 72 ''dec'', createParamHelperCall 0 (Some (ident 85 ''pd''))]
                    (Some (ident 73 ''K'')) None None) {}]"
    by (auto split: sum.splits)
  have d: "decorators decoratedClass \<noteq> None"
    by (simp add: decoratedClass_def decorators_def getNodes_def)
  from decorator_statement_order [OF run] d
  have "\<exists>instanceCalls staticCalls constructorCall.
            filter isDecorateCallStatement outs = instanceCalls @ staticCalls @ constructorCall
            \<and> length constructorCall = 1"
    by (auto split: if_splits)
  with run calls show ?thesis by blast
qed

text \<open>
  C8.  On \<^verbatim>\<open>class P { get x() {} @d2 set x(v) {} }\<close> the pair has a decorator, and no
  decorate call is written for it.  The guard of \<open>transformDecoratorsOfMembers\<close>
  (lines 953-957) lets through only the set accessor, the one member that is itself
  decorated, and \<open>transformDecoratorsOfMember\<close> writes nothing for it because it is not
  the first accessor of the pair (lines 1012-1014); the get accessor, for which lines
  1016-1020 would take the decorators of the second accessor and write the call, is
  never passed on.  The class is lowered to one statement, the class declaration.
\<close>

theorem second_accessor_decorators_dropped:
  "decorators getterX = None
   \<and> decorators setterX = Some [decorator 97 ''d2'']
   \<and> membersToDecorate exampleEnv pairClass False = [setterX]
   \<and> transformDecoratorsOfMember exampleEnv (\<lambda>m. transformNode exampleEnv 3 (Some m)) pairClass
         setterX (initialState [pairClass, sourceFile])
       = Inr ([], initialState [pairClass, sourceFile])
   \<and> transformDecoratorsOfMember exampleEnv (\<lambda>m. transformNode exampleEnv 3 (Some m)) pairClass
         getterX (initialState [pairClass, sourceFile])
       = Inr ([createExpressionStatement
                 (createDefinePropertyCall
                    (createPropertyAccessExpression2 (Some (ident 104 ''P''))
                       (Some (createIdentifier ''prototype'')))
                    (createStringLiteral ''x'')
                    (createDecorateHelperCall [ident 98 ''d2'']
                       (Some (createPropertyAccessExpression2 (Some (ident 104 ''P''))
                                (Some (createIdentifier ''prototype''))))
                       (Some (createStringLiteral ''x''))
                       (Some (createGetOwnPropertyDescriptorCall
                                (createPropertyAccessExpression2 (Some (ident 104 ''P''))
                                   (Some (createIdentifier ''prototype'')))
                                (createStringLiteral ''x''))))) {}],
              initialState [pairClass, sourceFile])
   \<and> (case transformClassDeclaration exampleEnv (\<lambda>m. transformNode exampleEnv 3 (Some m))
              pairClass (initialState [pairClass, sourceFile]) of
         Inl failure \<Rightarrow> False
       | Inr (outs, st') \<Rightarrow> length outs = 1 \<and> filter isDecorateCallStatement outs = [])"
  by code_simp

subsection \<open>Enum members\<close>











subsection \<open>The storage argument of a wrapper\<close>





















end
